theory Spec2Isabelle
  imports Complex_Main
begin

section \<open>Data model (types.ts)\<close>

text \<open>
  JavaScript numbers are modelled as exact reals: rounding of IEEE doubles, NaN and the
  infinities are outside the model. Where the source divides, the divisor is non-zero in
  every state the engine builds (\<open>initialCapital\<close> is a constant, \<open>entryPriceSol\<close> and the
  watchlist prices are checked to be truthy before they are stored), or the JavaScript
  result of a zero divisor is written out. Timestamps (\<open>Date.now()\<close>, milliseconds) are
  integers. A value that may be \<open>null\<close> or \<open>undefined\<close> is an \<open>option\<close>.

  Position objects are shared between \<open>state.openPositions\<close> and the monitor's loops,
  which mutate them in place. The model keeps them in an explicit store: \<open>heap\<close> maps a
  reference to the object's current value, \<open>openPositions\<close> is the array of references,
  and \<open>nextRef\<close> is the next unused reference. The module-level map \<open>deadVolumeTimers\<close>
  of the monitor is a field of the same record, and so is \<open>effects\<close>, the trace of the
  calls made to the external collaborators (executor, notifier, storage). What those
  collaborators answer (prices, fills, the runner quorum) is an argument of the function
  that asks. The fields \<open>closedToday\<close>, \<open>seenTokens\<close> and \<open>watchList\<close> of \<open>BotState\<close> are
  read by no decision and are left out, as are the display fields of a token.
\<close>

datatype pos_status = St_open | St_partial | St_closed

datatype close_reason =
  Stop_loss | Take_profit | Trailing_stop | Timeout | Dead_volume | Manual

datatype confidence_tier = Ignore | Watch | Low | Medium | High

datatype priority_tier = Normal | HighPriority

record detected_token =
  t_mintAddress :: string
  t_symbol :: string
  t_name :: string
  priceSol :: real
  marketCap :: real
  volume5m :: real
  buyCount5m :: real
  sellCount5m :: real

record token_analysis =
  token :: detected_token
  a_score :: int
  confidence :: confidence_tier

record position =
  pos_id :: string
  mintAddress :: string
  symbol :: string
  name :: string
  entryPriceSol :: real
  entryAmountSol :: real
  tokenAmount :: real
  entryTime :: int
  entryTxSignature :: string
  score :: int
  currentPriceSol :: real
  highestPriceSol :: real
  pnlPercent :: real
  pnlSol :: real
  remainingPercent :: real
  takeProfitStage :: nat
  trailingStopActive :: bool
  isRunner :: bool
  runnerPromotedAt :: "int option"
  status :: pos_status
  closeReason :: "close_reason option"

record trade_order =
  o_mintAddress :: string
  o_symbol :: string
  amountSol :: real
  o_score :: int
  o_confidence :: confidence_tier
  priority :: priority_tier

text \<open>The reason string handed to \<open>executeSell\<close>: a close reason, or the label of a
  take-profit rung (\<open>Scalp TP +20%\<close>, \<open>Runner TP +50%\<close>) with its trigger in percent.\<close>

datatype sell_reason = CloseFor close_reason | ScalpTP real | RunnerTP real

datatype effect =
    NotifyRiskAlert real real
  | NotifySellProfit string real real sell_reason
  | NotifySellLoss string real real sell_reason
  | NotifyTrailingStop string real real real
  | NotifyBuy string string real int string
  | SaveTrade string real real real real close_reason
  | ExecuteSell nat real sell_reason
  | ExecuteBuy trade_order

record bot_state =
  totalCapitalSol :: real
  availableCapitalSol :: real
  reserveSol :: real
  openPositions :: "nat list"
  dailyPnlSol :: real
  dailyPnlPercent :: real
  dailyTradeCount :: nat
  dailyWinCount :: nat
  dailyLossCount :: nat
  isPaused :: bool
  pauseUntil :: "int option"
  startTime :: int
  heap :: "nat \<Rightarrow> position"
  nextRef :: nat
  deadVolumeTimers :: "string \<Rightarrow> int option"
  effects :: "effect list"

section \<open>Configuration (config.ts)\<close>

definition initialCapital :: real where "initialCapital = 0.6"
definition reserveAmount :: real where "reserveAmount = 0.06"
definition maxOpenPositions :: nat where "maxOpenPositions = 18"
definition positionSizes_low :: real where "positionSizes_low = 0.025"
definition positionSizes_medium :: real where "positionSizes_medium = 0.04"
definition positionSizes_high :: real where "positionSizes_high = 0.06"
definition maxDailyLoss :: real where "maxDailyLoss = 0.30"
definition pauseDuration :: int where "pauseDuration = 20 * 60 * 1000"

section \<open>Risk manager (risk/manager.ts)\<close>

definition getDeployableCapital :: "bot_state \<Rightarrow> real" where
  "getDeployableCapital st = max 0 (availableCapitalSol st - reserveAmount)"

datatype deny_reason =
  PausedFor int | MaxPositions | DailyLossPause | InsufficientCapital

record gate_result =
  allowed :: bool
  reason :: "deny_reason option"

definition allow :: gate_result where
  "allow = \<lparr>allowed = True, reason = None\<rparr>"

definition deny :: "deny_reason \<Rightarrow> gate_result" where
  "deny why = \<lparr>allowed = False, reason = Some why\<rparr>"

text \<open>\<open>Math.ceil((pauseUntil - now) / 60_000)\<close> on integers.\<close>

definition remainingMinutes :: "int \<Rightarrow> int \<Rightarrow> int" where
  "remainingMinutes t now = - ((now - t) div 60000)"

definition endPause :: "bot_state \<Rightarrow> bot_state" where
  "endPause st = st\<lparr>isPaused := False, pauseUntil := None\<rparr>"

text \<open>The checks of \<open>canOpenPosition\<close> that follow the pause block (lines 34 to 59).\<close>

definition gateChecks :: "int \<Rightarrow> bot_state \<Rightarrow> gate_result \<times> bot_state" where
  "gateChecks now st =
     (if length (openPositions st) \<ge> maxOpenPositions then (deny MaxPositions, st)
      else
        let dailyLossPercent = \<bar>dailyPnlSol st\<bar> / initialCapital in
        if dailyPnlSol st < 0 \<and> dailyLossPercent \<ge> maxDailyLoss then
          (deny DailyLossPause,
           st\<lparr>isPaused := True,
              pauseUntil := Some (now + pauseDuration),
              effects := effects st @ [NotifyRiskAlert (dailyPnlPercent st) (dailyLossPercent * 100)]\<rparr>)
        else if getDeployableCapital st < 0.005 then (deny InsufficientCapital, st)
        else (allow, st))"

text \<open>In the pause block, \<open>state.pauseUntil && Date.now() < state.pauseUntil\<close> treats a
  \<open>null\<close> or zero expiry as falsy.\<close>

definition canOpenPosition :: "int \<Rightarrow> bot_state \<Rightarrow> gate_result \<times> bot_state" where
  "canOpenPosition now st =
     (if isPaused st then
        (case pauseUntil st of
           Some t \<Rightarrow>
             if t \<noteq> 0 \<and> now < t then (deny (PausedFor (remainingMinutes t now)), st)
             else gateChecks now (endPause st)
         | None \<Rightarrow> gateChecks now (endPause st))
      else gateChecks now st)"

definition sizePercent :: "int \<Rightarrow> real" where
  "sizePercent sc =
     (if sc \<ge> 60 then positionSizes_high
      else if sc \<ge> 50 then positionSizes_medium
      else positionSizes_low)"

text \<open>The position size after the two dynamic adjustments, before floor and cap
  (lines 69 to 98 of \<open>calculatePositionSize\<close>).\<close>

definition adjustedSize :: "token_analysis \<Rightarrow> bot_state \<Rightarrow> real" where
  "adjustedSize analysis st =
     (let deployable = getDeployableCapital st;
          size0 = deployable * sizePercent (a_score analysis);
          size1 = (if dailyPnlSol st < 0
                   then size0 * max 0.5 (1 - \<bar>dailyPnlSol st\<bar> / initialCapital)
                   else size0);
          size2 = (if dailyPnlSol st > 0 \<and> dailyWinCount st > 2
                      \<and> real (dailyWinCount st) / real (max 1 (dailyTradeCount st)) > 0.6
                   then size1 * 1.1
                   else size1)
      in size2)"

definition calculatePositionSize :: "token_analysis \<Rightarrow> bot_state \<Rightarrow> real" where
  "calculatePositionSize analysis st =
     min (getDeployableCapital st * 0.15) (max 0.003 (adjustedSize analysis st))"

definition shouldBuy ::
  "int \<Rightarrow> token_analysis \<Rightarrow> bot_state \<Rightarrow> trade_order option \<times> bot_state" where
  "shouldBuy now analysis st =
     (if confidence analysis = Ignore \<or> confidence analysis = Watch then (None, st)
      else
        let (check, st1) = canOpenPosition now st in
        if \<not> allowed check then (None, st1)
        else if list_ex (\<lambda>r. mintAddress (heap st1 r) = t_mintAddress (token analysis))
                  (openPositions st1)
        then (None, st1)
        else
          (Some \<lparr>o_mintAddress = t_mintAddress (token analysis),
                 o_symbol = t_symbol (token analysis),
                 amountSol = calculatePositionSize analysis st1,
                 o_score = a_score analysis,
                 o_confidence = confidence analysis,
                 priority = (if a_score analysis \<ge> 55 then HighPriority else Normal)\<rparr>,
           st1))"

text \<open>\<open>syncCapital\<close>, with the balance returned by the external query as an argument.\<close>

definition committed :: "bot_state \<Rightarrow> real" where
  "committed st =
     (\<Sum>r\<leftarrow>openPositions st.
        entryAmountSol (heap st r) * (remainingPercent (heap st r) / 100))"

definition syncCapital :: "real \<Rightarrow> bot_state \<Rightarrow> bot_state" where
  "syncCapital balance st =
     st\<lparr>totalCapitalSol := balance,
        availableCapitalSol := balance - committed st\<rparr>"

section \<open>Daily reset (index.ts)\<close>

definition resetDailyCounters :: "bot_state \<Rightarrow> bot_state" where
  "resetDailyCounters st =
     st\<lparr>dailyPnlSol := 0,
        dailyPnlPercent := 0,
        dailyTradeCount := 0,
        dailyWinCount := 0,
        dailyLossCount := 0,
        isPaused := False,
        pauseUntil := None\<rparr>"

section \<open>Position monitor (monitor/positions.ts)\<close>

text \<open>The functions of this section and of the next give what one invocation does when
  nothing else runs between its start and its end: every promise it awaits settles before
  any other invocation touches the ledger. The section on the event loop cuts the same
  code at its \<open>await\<close>s.\<close>

subsection \<open>Configuration tables\<close>

record trail_level =
  abovePercent :: real
  trailPercent :: real

record secure_profit =
  triggerPercent :: real
  sellPercent :: real

definition trailingLevels :: "trail_level list" where
  "trailingLevels =
     [\<lparr>abovePercent = 0, trailPercent = 0.10\<rparr>,
      \<lparr>abovePercent = 15, trailPercent = 0.08\<rparr>,
      \<lparr>abovePercent = 30, trailPercent = 0.07\<rparr>,
      \<lparr>abovePercent = 50, trailPercent = 0.06\<rparr>]"

definition secureProfits :: "secure_profit list" where
  "secureProfits =
     [\<lparr>triggerPercent = 0.20, sellPercent = 0.30\<rparr>,
      \<lparr>triggerPercent = 0.40, sellPercent = 0.30\<rparr>]"

definition runner_trailing_levels :: "trail_level list" where
  "runner_trailing_levels =
     [\<lparr>abovePercent = 0, trailPercent = 0.20\<rparr>,
      \<lparr>abovePercent = 30, trailPercent = 0.18\<rparr>,
      \<lparr>abovePercent = 80, trailPercent = 0.15\<rparr>,
      \<lparr>abovePercent = 150, trailPercent = 0.12\<rparr>,
      \<lparr>abovePercent = 300, trailPercent = 0.10\<rparr>]"

definition runner_secureProfits :: "secure_profit list" where
  "runner_secureProfits =
     [\<lparr>triggerPercent = 0.50, sellPercent = 0.15\<rparr>,
      \<lparr>triggerPercent = 1.50, sellPercent = 0.15\<rparr>,
      \<lparr>triggerPercent = 3.00, sellPercent = 0.10\<rparr>]"

definition deadVolumeTimeout :: int where "deadVolumeTimeout = 3 * 60 * 1000"
definition deadVolumeExtension :: int where "deadVolumeExtension = 2 * 60 * 1000"
definition deadVolumeStopLoss :: real where "deadVolumeStopLoss = -10"
definition maxPositionAge :: int where "maxPositionAge = 90 * 60 * 1000"
definition maxTrailingLoss :: real where "maxTrailingLoss = -20"
definition runner_maxDuration :: int where "runner_maxDuration = 6 * 60 * 60 * 1000"

subsection \<open>External results\<close>

text \<open>What \<open>executeSell\<close> resolves to; the signature is not used by any decision.\<close>

record sell_result =
  success :: bool
  solReceived :: "real option"

text \<open>\<open>result.solReceived || 0\<close>.\<close>

definition received :: "sell_result \<Rightarrow> real" where
  "received res = (case solReceived res of None \<Rightarrow> 0 | Some x \<Rightarrow> x)"

definition updPos :: "nat \<Rightarrow> (position \<Rightarrow> position) \<Rightarrow> bot_state \<Rightarrow> bot_state" where
  "updPos r f st = st\<lparr>heap := (heap st)(r := f (heap st r))\<rparr>"

definition emit :: "effect list \<Rightarrow> bot_state \<Rightarrow> bot_state" where
  "emit es st = st\<lparr>effects := effects st @ es\<rparr>"

subsection \<open>Trail calculators\<close>

text \<open>\<open>getScalpTrail\<close> and \<open>getRunnerTrail\<close> have the same body over their own table:
  scan from the last level down, return the first whose \<open>abovePercent\<close> is reached, else
  the first level's trail. Both tables are constants with a first level.\<close>

definition getTrail :: "trail_level list \<Rightarrow> real \<Rightarrow> real" where
  "getTrail lvls pnl =
     (case find (\<lambda>l. pnl \<ge> abovePercent l) (rev lvls) of
        Some l \<Rightarrow> trailPercent l
      | None \<Rightarrow> trailPercent (lvls ! 0))"

definition getScalpTrail :: "real \<Rightarrow> real" where
  "getScalpTrail pnl = getTrail trailingLevels pnl"

definition getRunnerTrail :: "real \<Rightarrow> real" where
  "getRunnerTrail pnl = getTrail runner_trailing_levels pnl"

subsection \<open>Sell helpers\<close>

text \<open>\<open>Math.min(100, (pct / p.remainingPercent) * 100)\<close>. Every caller passes a positive
  \<open>pct\<close>, so a zero \<open>remainingPercent\<close> gives \<open>+Infinity\<close> and the minimum is 100.\<close>

definition sellShare :: "real \<Rightarrow> real \<Rightarrow> real" where
  "sellShare pct remaining =
     (if remaining = 0 then 100 else min 100 (pct / remaining * 100))"

definition partialSell ::
  "sell_result \<Rightarrow> nat \<Rightarrow> real \<Rightarrow> sell_reason \<Rightarrow> bot_state \<Rightarrow> bot_state" where
  "partialSell res r pct why st =
     (let p = heap st r;
          st0 = emit [ExecuteSell r (sellShare pct (remainingPercent p)) why] st
      in
      if success res then
        let remaining' = remainingPercent p - pct;
            pnl = received res - entryAmountSol p * (pct / 100);
            daily = dailyPnlSol st0 + pnl;
            st1 = updPos r (\<lambda>q. q\<lparr>remainingPercent := remaining',
                                   status := (if remaining' \<le> 0 then St_closed else St_partial)\<rparr>) st0;
            st2 = st1\<lparr>dailyPnlSol := daily,
                      dailyPnlPercent := daily / initialCapital * 100,
                      availableCapitalSol := availableCapitalSol st1 + received res\<rparr>
        in (if pnl > 0 then emit [NotifySellProfit (symbol p) (pnlPercent p) pnl why] st2 else st2)
      else st0)"

definition closePosition ::
  "sell_result \<Rightarrow> nat \<Rightarrow> close_reason \<Rightarrow> bot_state \<Rightarrow> bot_state" where
  "closePosition res r why st =
     (let p = heap st r;
          st0 = emit [ExecuteSell r (remainingPercent p) (CloseFor why)] st;
          st1 = updPos r (\<lambda>q. q\<lparr>status := St_closed,
                                 closeReason := Some why,
                                 remainingPercent := 0\<rparr>) st0;
          st2 = st1\<lparr>deadVolumeTimers := (deadVolumeTimers st1)(pos_id p := None)\<rparr>;
          invested = entryAmountSol p;
          returned = received res;
          pnl = returned - invested;
          pnlPct = (if invested > 0 then (returned - invested) / invested * 100 else 0);
          st3 = emit [SaveTrade (pos_id p) invested returned pnl pnlPct why] st2;
          daily = dailyPnlSol st3 + pnl;
          st4 = st3\<lparr>dailyPnlSol := daily,
                    dailyPnlPercent := daily / initialCapital * 100,
                    dailyTradeCount := dailyTradeCount st3 + 1,
                    dailyWinCount := (if pnl > 0 then dailyWinCount st3 + 1 else dailyWinCount st3),
                    dailyLossCount := (if pnl > 0 then dailyLossCount st3 else dailyLossCount st3 + 1),
                    availableCapitalSol := availableCapitalSol st3 + returned,
                    openPositions :=
                      filter (\<lambda>x. pos_id (heap st3 x) \<noteq> pos_id p) (openPositions st3)\<rparr>
      in
      if pnl \<ge> 0 then emit [NotifySellProfit (symbol p) pnlPct pnl (CloseFor why)] st4
      else emit [NotifySellLoss (symbol p) pnlPct pnl (CloseFor why)] st4)"

subsection \<open>Fast loop\<close>

definition deadVolumeCheck :: "int \<Rightarrow> sell_result \<Rightarrow> nat \<Rightarrow> bot_state \<Rightarrow> bot_state" where
  "deadVolumeCheck now sell r st =
     (let p = heap st r;
          st1 = (if deadVolumeTimers st (pos_id p) = None
                 then st\<lparr>deadVolumeTimers := (deadVolumeTimers st)(pos_id p \<mapsto> now)\<rparr>
                 else st);
          deadSince = (case deadVolumeTimers st1 (pos_id p) of Some t \<Rightarrow> t | None \<Rightarrow> now);
          deadDuration = now - deadSince;
          cleared = st1\<lparr>deadVolumeTimers := (deadVolumeTimers st1)(pos_id p := None)\<rparr>
      in
      if pnlPercent p > 0 \<and> deadDuration > 15000 then
        closePosition sell r Dead_volume cleared
      else if pnlPercent p \<le> deadVolumeStopLoss \<and> deadDuration > deadVolumeTimeout then
        closePosition sell r Dead_volume cleared
      else if pnlPercent p < 0 \<and> pnlPercent p > deadVolumeStopLoss
              \<and> deadDuration > deadVolumeTimeout + deadVolumeExtension then
        closePosition sell r Dead_volume cleared
      else if deadDuration > 7 * 60 * 1000 then
        closePosition sell r Dead_volume cleared
      else st1)"

text \<open>The price refresh of the fast loop (lines 111 to 119). \<open>entryPriceSol\<close> is non-zero
  for every position that \<open>executeDirectBuy\<close> creates.\<close>

definition fastRefresh :: "real \<Rightarrow> nat \<Rightarrow> bot_state \<Rightarrow> bot_state" where
  "fastRefresh price r st =
     (let p = heap st r;
          st1 = st\<lparr>deadVolumeTimers := (deadVolumeTimers st)(pos_id p := None)\<rparr>
      in updPos r (\<lambda>q. q\<lparr>currentPriceSol := price,
                          pnlPercent := ((price - entryPriceSol q) / entryPriceSol q) * 100,
                          highestPriceSol :=
                            (if price > highestPriceSol q then price else highestPriceSol q)\<rparr>) st1)"

definition fastStops :: "int \<Rightarrow> sell_result \<Rightarrow> nat \<Rightarrow> bot_state \<Rightarrow> bot_state" where
  "fastStops now sell r st =
     (let p = heap st r;
          age = now - entryTime p
      in
      if age < 30000 \<and> pnlPercent p \<le> -4 \<and> \<not> isRunner p then
        closePosition sell r Stop_loss st
      else if age < 60000 \<and> pnlPercent p \<le> -7 \<and> \<not> isRunner p then
        closePosition sell r Stop_loss st
      else if pnlPercent p \<le> -12 \<and> \<not> isRunner p then
        closePosition sell r Stop_loss st
      else if pnlPercent p \<le> maxTrailingLoss \<and> \<not> isRunner p then
        closePosition sell r Trailing_stop st
      else if isRunner p \<and> pnlPercent p \<le> 2
              \<and> ((highestPriceSol p - entryPriceSol p) / entryPriceSol p) * 100 \<ge> 15 then
        closePosition sell r Trailing_stop st
      else st)"

text \<open>The body of the result loop of \<open>fastCheckParallel\<close> for one position.\<close>

definition fastCheckOne ::
  "int \<Rightarrow> real option \<Rightarrow> sell_result \<Rightarrow> nat \<Rightarrow> bot_state \<Rightarrow> bot_state" where
  "fastCheckOne now price sell r st =
     (if status (heap st r) = St_closed then st
      else case price of
        None \<Rightarrow> deadVolumeCheck now sell r st
      | Some x \<Rightarrow>
          if x = 0 then deadVolumeCheck now sell r st
          else fastStops now sell r (fastRefresh x r st))"

text \<open>One tick of the fast loop. \<open>price r\<close> is what \<open>fetchCurrentPrice\<close> settled to for the
  position \<open>r\<close> (\<open>None\<close> also for a rejected fetch) and \<open>sell r\<close> what \<open>executeSell\<close> returns
  if the position is closed in this tick.\<close>

definition fastCheckParallel ::
  "int \<Rightarrow> (nat \<Rightarrow> real option) \<Rightarrow> (nat \<Rightarrow> sell_result) \<Rightarrow> bot_state \<Rightarrow> bot_state" where
  "fastCheckParallel now price sell st =
     fold (\<lambda>r. fastCheckOne now (price r) (sell r) r)
       (filter (\<lambda>r. status (heap st r) \<noteq> St_closed) (openPositions st)) st"

subsection \<open>Slow loop\<close>

text \<open>The take-profit loops of \<open>handleScalp\<close> and \<open>handleRunner\<close>:
  \<open>for (let i = p.takeProfitStage; i < table.length; i++)\<close>. The loop runs over the
  rungs from \<open>takeProfitStage\<close> on, \<open>i\<close> being the index of the rung at the head;
  \<open>sell i\<close> is what \<open>executeSell\<close> returns for the rung \<open>i\<close>. The stage is written after
  \<open>partialSell\<close> returns, whether or not the sell succeeded.\<close>

fun takeProfitLoop ::
  "(real \<Rightarrow> sell_reason) \<Rightarrow> (nat \<Rightarrow> sell_result) \<Rightarrow> nat \<Rightarrow> secure_profit list \<Rightarrow> nat
     \<Rightarrow> bot_state \<Rightarrow> bot_state" where
  "takeProfitLoop label sell r [] i st = st"
| "takeProfitLoop label sell r (sp # rest) i st =
     takeProfitLoop label sell r rest (i + 1)
       (if pnlPercent (heap st r) \<ge> triggerPercent sp * 100 then
          updPos r (\<lambda>q. q\<lparr>takeProfitStage := i + 1\<rparr>)
            (partialSell (sell i) r (sellPercent sp * 100) (label (triggerPercent sp * 100)) st)
        else st)"

definition scalpTakeProfit :: "(nat \<Rightarrow> sell_result) \<Rightarrow> nat \<Rightarrow> bot_state \<Rightarrow> bot_state" where
  "scalpTakeProfit sell r st =
     takeProfitLoop ScalpTP sell r
       (drop (takeProfitStage (heap st r)) secureProfits) (takeProfitStage (heap st r)) st"

definition runnerTakeProfit :: "(nat \<Rightarrow> sell_result) \<Rightarrow> nat \<Rightarrow> bot_state \<Rightarrow> bot_state" where
  "runnerTakeProfit sell r st =
     takeProfitLoop RunnerTP sell r
       (drop (takeProfitStage (heap st r)) runner_secureProfits) (takeProfitStage (heap st r)) st"

definition handleScalp ::
  "int \<Rightarrow> (nat \<Rightarrow> sell_result) \<Rightarrow> sell_result \<Rightarrow> nat \<Rightarrow> real \<Rightarrow> bot_state \<Rightarrow> bot_state" where
  "handleScalp now sellTP sellClose r highestPnl st =
     (let p = heap st r in
      if highestPnl \<ge> 12 \<and> pnlPercent p \<le> 1 then
        closePosition sellClose r Trailing_stop st
      else if highestPnl > 8
              \<and> currentPriceSol p \<le> highestPriceSol p * (1 - getScalpTrail highestPnl) then
        closePosition sellClose r Trailing_stop
          (if pnlPercent p > 0
           then emit [NotifyTrailingStop (symbol p) (pnlPercent p) (pnlSol p) highestPnl] st
           else st)
      else
        let st1 = scalpTakeProfit sellTP r st;
            q = heap st1 r
        in
        if now - entryTime q > maxPositionAge \<and> pnlPercent q \<le> 3 then
          closePosition sellClose r Timeout st1
        else st1)"

definition handleRunner ::
  "int \<Rightarrow> (nat \<Rightarrow> sell_result) \<Rightarrow> sell_result \<Rightarrow> nat \<Rightarrow> real \<Rightarrow> bot_state \<Rightarrow> bot_state" where
  "handleRunner now sellTP sellClose r highestPnl st =
     (let p = heap st r in
      if highestPnl > 10
         \<and> currentPriceSol p \<le> highestPriceSol p * (1 - getRunnerTrail highestPnl) then
        closePosition sellClose r Trailing_stop
          (if pnlPercent p > 0
           then emit [NotifyTrailingStop (symbol p) (pnlPercent p) (pnlSol p) highestPnl] st
           else st)
      else
        let st1 = runnerTakeProfit sellTP r st;
            q = heap st1 r
        in
        if now - entryTime q > runner_maxDuration \<and> pnlPercent q \<le> 5 then
          closePosition sellClose r Timeout st1
        else st1)"

text \<open>The price refresh of \<open>checkPosition\<close> (lines 174 to 177).\<close>

definition slowRefresh :: "real \<Rightarrow> nat \<Rightarrow> bot_state \<Rightarrow> bot_state" where
  "slowRefresh price r st =
     updPos r (\<lambda>q. q\<lparr>currentPriceSol := price,
                     pnlPercent := ((price - entryPriceSol q) / entryPriceSol q) * 100,
                     pnlSol := (price - entryPriceSol q) * tokenAmount q * (remainingPercent q / 100),
                     highestPriceSol :=
                       (if price > highestPriceSol q then price else highestPriceSol q)\<rparr>) st"

text \<open>\<open>checkPosition\<close>. \<open>promoted\<close> is the answer of \<open>checkIfRunner\<close> (a quorum over an
  external market query), asked only when the position is not yet a runner and its P&L
  has reached 15 percent.\<close>

definition checkPosition ::
  "int \<Rightarrow> real option \<Rightarrow> bool \<Rightarrow> (nat \<Rightarrow> sell_result) \<Rightarrow> sell_result \<Rightarrow> nat
     \<Rightarrow> bot_state \<Rightarrow> bot_state" where
  "checkPosition now price promoted sellTP sellClose r st =
     (case price of
        None \<Rightarrow> st
      | Some x \<Rightarrow>
          if x = 0 then st
          else
            let st1 = slowRefresh x r st;
                p = heap st1 r;
                highestPnl = ((highestPriceSol p - entryPriceSol p) / entryPriceSol p) * 100;
                st2 = (if \<not> isRunner p \<and> pnlPercent p \<ge> 15 \<and> promoted
                       then updPos r (\<lambda>q. q\<lparr>isRunner := True, runnerPromotedAt := Some now\<rparr>) st1
                       else st1)
            in
            if isRunner (heap st2 r) then handleRunner now sellTP sellClose r highestPnl st2
            else handleScalp now sellTP sellClose r highestPnl st2)"

text \<open>The answers of the outside world to one slow tick, per position.\<close>

record slow_env =
  se_price :: "nat \<Rightarrow> real option"
  se_promoted :: "nat \<Rightarrow> bool"
  se_sellTP :: "nat \<Rightarrow> nat \<Rightarrow> sell_result"
  se_sellClose :: "nat \<Rightarrow> sell_result"

definition checkAllPositions :: "int \<Rightarrow> slow_env \<Rightarrow> bot_state \<Rightarrow> bot_state" where
  "checkAllPositions now env st =
     fold (\<lambda>r. checkPosition now (se_price env r) (se_promoted env r) (se_sellTP env r)
                  (se_sellClose env r) r)
       (filter (\<lambda>r. status (heap st r) \<noteq> St_closed) (openPositions st)) st"

section \<open>Opening a position (index.ts)\<close>

text \<open>What \<open>executeBuy\<close> resolves to.\<close>

record buy_result =
  b_success :: bool
  b_signature :: "string option"
  b_tokenAmount :: "real option"
  b_priceSol :: "real option"

definition newPosition ::
  "int \<Rightarrow> string \<Rightarrow> token_analysis \<Rightarrow> trade_order \<Rightarrow> string \<Rightarrow> real \<Rightarrow> real \<Rightarrow> position" where
  "newPosition now newId analysis order sig amt prc =
     (let tok = token analysis;
          totalTx = buyCount5m tok + sellCount5m tok;
          buyRatio = (if totalTx > 0 then buyCount5m tok / totalTx else 0);
          isEarlyRunner = (marketCap tok > 0 \<and> marketCap tok < 50000
                           \<and> volume5m tok > 0 \<and> buyRatio > 0.55)
      in \<lparr>pos_id = newId,
          mintAddress = t_mintAddress tok,
          symbol = t_symbol tok,
          name = t_name tok,
          entryPriceSol = prc,
          entryAmountSol = amountSol order,
          tokenAmount = amt,
          entryTime = now,
          entryTxSignature = sig,
          score = a_score analysis,
          currentPriceSol = prc,
          highestPriceSol = prc,
          pnlPercent = 0,
          pnlSol = 0,
          remainingPercent = 100,
          takeProfitStage = 0,
          trailingStopActive = False,
          isRunner = isEarlyRunner,
          runnerPromotedAt = (if isEarlyRunner then Some now else None),
          status = St_open,
          closeReason = None\<rparr>)"

text \<open>\<open>state.openPositions.push(position)\<close> on a freshly allocated object, then the debit.\<close>

definition openPosition :: "position \<Rightarrow> bot_state \<Rightarrow> bot_state" where
  "openPosition p st =
     st\<lparr>heap := (heap st)(nextRef st := p),
        nextRef := nextRef st + 1,
        openPositions := openPositions st @ [nextRef st],
        availableCapitalSol := availableCapitalSol st - entryAmountSol p\<rparr>"

text \<open>\<open>executeDirectBuy\<close>. \<open>newId\<close> is the identifier built from the clock and a random
  suffix, \<open>preBuyPrice\<close> the pre-buy price read, \<open>result\<close> the answer of \<open>executeBuy\<close>.\<close>

definition executeDirectBuy ::
  "int \<Rightarrow> string \<Rightarrow> real option \<Rightarrow> buy_result \<Rightarrow> token_analysis \<Rightarrow> bot_state \<Rightarrow> bot_state" where
  "executeDirectBuy now newId preBuyPrice result analysis st =
     (case shouldBuy now analysis st of
        (None, st1) \<Rightarrow> st1
      | (Some order, st1) \<Rightarrow>
          (case preBuyPrice of
             None \<Rightarrow> st1
           | Some pre \<Rightarrow>
               if pre = 0 then st1
               else if priceSol (token analysis) > 0
                       \<and> ((pre - priceSol (token analysis)) / priceSol (token analysis)) * 100 < -8
               then st1
               else
                 let st2 = emit [ExecuteBuy order] st1 in
                 (case (b_signature result, b_tokenAmount result, b_priceSol result) of
                    (Some sig, Some amt, Some prc) \<Rightarrow>
                      if b_success result \<and> sig \<noteq> [] \<and> amt \<noteq> 0 \<and> prc \<noteq> 0 then
                        emit [NotifyBuy (t_symbol (token analysis))
                                (t_mintAddress (token analysis))
                                (amountSol order) (a_score analysis) sig]
                          (openPosition (newPosition now newId analysis order sig amt prc) st2)
                      else st2
                  | _ \<Rightarrow> st2)))"

definition initialState :: "int \<Rightarrow> real \<Rightarrow> position \<Rightarrow> bot_state" where
  "initialState now balance blank =
     \<lparr>totalCapitalSol = balance,
      availableCapitalSol = balance,
      reserveSol = reserveAmount,
      openPositions = [],
      dailyPnlSol = 0,
      dailyPnlPercent = 0,
      dailyTradeCount = 0,
      dailyWinCount = 0,
      dailyLossCount = 0,
      isPaused = False,
      pauseUntil = None,
      startTime = now,
      heap = (\<lambda>_. blank),
      nextRef = 0,
      deadVolumeTimers = (\<lambda>_. None),
      effects = []\<rparr>"

section \<open>The event loop\<close>

text \<open>The monitor's loops and the buy path are \<open>async\<close> functions. Between two \<open>await\<close>s
  such a function runs without interruption; at an \<open>await\<close> it hands control back to the
  event loop, which may start or resume any other invocation before the awaited promise
  settles, and the timers start new invocations whether or not an earlier one has
  finished. A \<open>segment\<close> below is the code between two \<open>await\<close>s: it takes the ledger,
  returns the ledger it leaves and, unless the invocation is over, the \<open>task\<close> that says
  where it waits. A call of an \<open>async\<close> function that returns without having awaited,
  and an \<open>await\<close> after which the function only returns, do not read or write the ledger
  and are merged with the segment that follows.\<close>

text \<open>An invocation that waits at an \<open>await\<close>, with the local variables it will read
  when it resumes. A \<open>kont\<close> is the rest of a loop, to be run when an awaited call of
  \<open>closePosition\<close>, \<open>partialSell\<close> or the notifier has returned:
  \<^item> \<open>KFast tick rest\<close>: the result loop of \<open>fastCheckParallel\<close> (line 58), with the clock
    reading \<open>now\<close> of line 48 and the results not yet visited;
  \<^item> \<open>KSlow rest\<close>: the loop of \<open>checkAllPositions\<close> (line 165) over the rest of its
    snapshot;
  \<^item> \<open>KTrail r rest\<close>: the \<open>closePosition\<close> that follows \<open>notifyTrailingStop\<close> (lines 243
    to 245 and 274 to 276);
  \<^item> \<open>KLadder l r i rest\<close>: the assignment \<open>p.takeProfitStage = i + 1\<close> and the rest of the
    take-profit loop (lines 254 and 285), then the timeout test and the loop of
    \<open>checkAllPositions\<close>.

  A \<open>task\<close> names the promise awaited:
  \<^item> \<open>AwaitPrices tick open\<close>: \<open>Promise.allSettled\<close> of line 56;
  \<^item> \<open>AwaitSlowPrice r rest\<close>: \<open>fetchCurrentPrice\<close> of line 171;
  \<^item> \<open>AwaitRunner r highestPnl rest\<close>: \<open>checkIfRunner\<close> of line 183;
  \<^item> \<open>AwaitClose r why k\<close>: \<open>executeSell\<close> in \<open>closePosition\<close> (line 328);
  \<^item> \<open>AwaitPartial r pct why k\<close>: \<open>executeSell\<close> in \<open>partialSell\<close> (line 315);
  \<^item> \<open>AwaitSent k\<close>: a call of the notifier (lines 243, 274, 323, 357, 360);
  \<^item> \<open>AwaitPreBuy analysis order\<close>: the pre-buy price read of \<open>executeDirectBuy\<close>
    (index.ts line 203);
  \<^item> \<open>AwaitBuy analysis order\<close>: \<open>executeBuy\<close> (index.ts line 224).\<close>

datatype ladder = ScalpLadder | RunnerLadder

datatype kont =
    KFast int "(nat \<times> real option) list"
  | KSlow "nat list"
  | KTrail nat "nat list"
  | KLadder ladder nat nat "nat list"

datatype task =
    AwaitPrices int "nat list"
  | AwaitSlowPrice nat "nat list"
  | AwaitRunner nat real "nat list"
  | AwaitClose nat close_reason kont
  | AwaitPartial nat real sell_reason kont
  | AwaitSent kont
  | AwaitPreBuy token_analysis trade_order
  | AwaitBuy token_analysis trade_order

type_synonym segment = "bot_state \<Rightarrow> task option \<times> bot_state"

subsection \<open>closePosition and partialSell\<close>

text \<open>\<open>closePosition\<close> up to its \<open>await executeSell(p, p.remainingPercent, reason)\<close>: the
  arguments are read when the call is made.\<close>

definition closeAsk :: "nat \<Rightarrow> close_reason \<Rightarrow> kont \<Rightarrow> segment" where
  "closeAsk r why k st =
     (Some (AwaitClose r why k),
      emit [ExecuteSell r (remainingPercent (heap st r)) (CloseFor why)] st)"

text \<open>\<open>closePosition\<close> from the answer of \<open>executeSell\<close> to the call of the notifier
  (lines 329 to 360). The position is read as it is when the answer arrives.\<close>

definition closeSettle :: "sell_result \<Rightarrow> nat \<Rightarrow> close_reason \<Rightarrow> bot_state \<Rightarrow> bot_state" where
  "closeSettle res r why st =
     (let p = heap st r;
          st1 = updPos r (\<lambda>q. q\<lparr>status := St_closed,
                                 closeReason := Some why,
                                 remainingPercent := 0\<rparr>) st;
          st2 = st1\<lparr>deadVolumeTimers := (deadVolumeTimers st1)(pos_id p := None)\<rparr>;
          invested = entryAmountSol p;
          returned = received res;
          pnl = returned - invested;
          pnlPct = (if invested > 0 then (returned - invested) / invested * 100 else 0);
          st3 = emit [SaveTrade (pos_id p) invested returned pnl pnlPct why] st2;
          daily = dailyPnlSol st3 + pnl;
          st4 = st3\<lparr>dailyPnlSol := daily,
                    dailyPnlPercent := daily / initialCapital * 100,
                    dailyTradeCount := dailyTradeCount st3 + 1,
                    dailyWinCount := (if pnl > 0 then dailyWinCount st3 + 1 else dailyWinCount st3),
                    dailyLossCount := (if pnl > 0 then dailyLossCount st3 else dailyLossCount st3 + 1),
                    availableCapitalSol := availableCapitalSol st3 + returned,
                    openPositions :=
                      filter (\<lambda>x. pos_id (heap st3 x) \<noteq> pos_id p) (openPositions st3)\<rparr>
      in
      if pnl \<ge> 0 then emit [NotifySellProfit (symbol p) pnlPct pnl (CloseFor why)] st4
      else emit [NotifySellLoss (symbol p) pnlPct pnl (CloseFor why)] st4)"

text \<open>\<open>partialSell\<close> up to its \<open>await executeSell(p, eff, reason)\<close>.\<close>

definition partialAsk :: "nat \<Rightarrow> real \<Rightarrow> sell_reason \<Rightarrow> kont \<Rightarrow> segment" where
  "partialAsk r pct why k st =
     (Some (AwaitPartial r pct why k),
      emit [ExecuteSell r (sellShare pct (remainingPercent (heap st r))) why] st)"

text \<open>\<open>partialSell\<close> from the answer of \<open>executeSell\<close> on (lines 316 to 323), and whether
  it then awaits the notifier (\<open>result.success\<close> and \<open>pnl > 0\<close>).\<close>

definition partialSettle :: "sell_result \<Rightarrow> nat \<Rightarrow> real \<Rightarrow> sell_reason \<Rightarrow> bot_state \<Rightarrow> bot_state" where
  "partialSettle res r pct why st =
     (if success res then
        let p = heap st r;
            remaining' = remainingPercent p - pct;
            pnl = received res - entryAmountSol p * (pct / 100);
            daily = dailyPnlSol st + pnl;
            st1 = updPos r (\<lambda>q. q\<lparr>remainingPercent := remaining',
                                   status := (if remaining' \<le> 0 then St_closed else St_partial)\<rparr>) st;
            st2 = st1\<lparr>dailyPnlSol := daily,
                      dailyPnlPercent := daily / initialCapital * 100,
                      availableCapitalSol := availableCapitalSol st1 + received res\<rparr>
        in (if pnl > 0 then emit [NotifySellProfit (symbol p) (pnlPercent p) pnl why] st2 else st2)
      else st)"

definition partialNotifies :: "sell_result \<Rightarrow> nat \<Rightarrow> real \<Rightarrow> bot_state \<Rightarrow> bool" where
  "partialNotifies res r pct st \<longleftrightarrow>
     success res \<and> received res - entryAmountSol (heap st r) * (pct / 100) > 0"

subsection \<open>The fast loop\<close>

text \<open>The four dead-volume tests (lines 75 to 105) and the five stops (lines 124 to 159)
  as decisions; the loop asks for the close.\<close>

definition deadVolumeDue :: "int \<Rightarrow> position \<Rightarrow> bool" where
  "deadVolumeDue deadDuration p \<longleftrightarrow>
     (pnlPercent p > 0 \<and> deadDuration > 15000)
     \<or> (pnlPercent p \<le> deadVolumeStopLoss \<and> deadDuration > deadVolumeTimeout)
     \<or> (pnlPercent p < 0 \<and> pnlPercent p > deadVolumeStopLoss
          \<and> deadDuration > deadVolumeTimeout + deadVolumeExtension)
     \<or> deadDuration > 7 * 60 * 1000"

definition fastStopReason :: "int \<Rightarrow> position \<Rightarrow> close_reason option" where
  "fastStopReason tick p =
     (let age = tick - entryTime p in
      if age < 30000 \<and> pnlPercent p \<le> -4 \<and> \<not> isRunner p then Some Stop_loss
      else if age < 60000 \<and> pnlPercent p \<le> -7 \<and> \<not> isRunner p then Some Stop_loss
      else if pnlPercent p \<le> -12 \<and> \<not> isRunner p then Some Stop_loss
      else if pnlPercent p \<le> maxTrailingLoss \<and> \<not> isRunner p then Some Trailing_stop
      else if isRunner p \<and> pnlPercent p \<le> 2
              \<and> ((highestPriceSol p - entryPriceSol p) / entryPriceSol p) * 100 \<ge> 15
      then Some Trailing_stop
      else None)"

definition deadVerdict :: "int \<Rightarrow> nat \<Rightarrow> bot_state \<Rightarrow> close_reason option \<times> bot_state" where
  "deadVerdict tick r st =
     (let p = heap st r;
          st1 = (if deadVolumeTimers st (pos_id p) = None
                 then st\<lparr>deadVolumeTimers := (deadVolumeTimers st)(pos_id p \<mapsto> tick)\<rparr>
                 else st);
          deadSince = (case deadVolumeTimers st1 (pos_id p) of Some t \<Rightarrow> t | None \<Rightarrow> tick)
      in
      if deadVolumeDue (tick - deadSince) p
      then (Some Dead_volume, st1\<lparr>deadVolumeTimers := (deadVolumeTimers st1)(pos_id p := None)\<rparr>)
      else (None, st1))"

text \<open>The body of the result loop for one position that is not closed, up to the point
  where it either asks for a close or goes on to the next result.\<close>

definition fastVerdict ::
  "int \<Rightarrow> real option \<Rightarrow> nat \<Rightarrow> bot_state \<Rightarrow> close_reason option \<times> bot_state" where
  "fastVerdict tick price r st =
     (case price of
        None \<Rightarrow> deadVerdict tick r st
      | Some x \<Rightarrow>
          if x = 0 then deadVerdict tick r st
          else (fastStopReason tick (heap (fastRefresh x r st) r), fastRefresh x r st))"

text \<open>The result loop of \<open>fastCheckParallel\<close> (lines 58 to 160) from the results not yet
  visited. Every result re-reads \<open>p.status\<close> (line 61).\<close>

fun fastLoop :: "int \<Rightarrow> (nat \<times> real option) list \<Rightarrow> segment" where
  "fastLoop tick [] st = (None, st)"
| "fastLoop tick (visit # rest) st =
     (if status (heap st (fst visit)) = St_closed then fastLoop tick rest st
      else
        let verdict = fastVerdict tick (snd visit) (fst visit) st in
        (case fst verdict of
           Some why \<Rightarrow> closeAsk (fst visit) why (KFast tick rest) (snd verdict)
         | None \<Rightarrow> fastLoop tick rest (snd verdict)))"

text \<open>\<open>fastCheckParallel\<close> up to \<open>await Promise.allSettled\<close>: the snapshot of the open set
  and the clock are taken here.\<close>

definition fastStart :: "int \<Rightarrow> segment" where
  "fastStart tick st =
     (let snapshot = filter (\<lambda>r. status (heap st r) \<noteq> St_closed) (openPositions st) in
      if snapshot = [] then (None, st) else (Some (AwaitPrices tick snapshot), st))"

subsection \<open>The slow loop\<close>

text \<open>The loop of \<open>checkAllPositions\<close> at its next position: \<open>checkPosition\<close> starts with
  \<open>await fetchCurrentPrice\<close>. Nothing is read from the position before.\<close>

definition slowNext :: "nat list \<Rightarrow> segment" where
  "slowNext rest st =
     (case rest of [] \<Rightarrow> (None, st) | r # later \<Rightarrow> (Some (AwaitSlowPrice r later), st))"

definition slowStart :: segment where
  "slowStart st = slowNext (filter (\<lambda>r. status (heap st r) \<noteq> St_closed) (openPositions st)) st"

definition rungs :: "ladder \<Rightarrow> secure_profit list" where
  "rungs l = (case l of ScalpLadder \<Rightarrow> secureProfits | RunnerLadder \<Rightarrow> runner_secureProfits)"

definition rungLabel :: "ladder \<Rightarrow> real \<Rightarrow> sell_reason" where
  "rungLabel l = (case l of ScalpLadder \<Rightarrow> ScalpTP | RunnerLadder \<Rightarrow> RunnerTP)"

text \<open>The timeout test that follows the take-profit loop (lines 259 to 264 and 290 to
  292), at the clock reading \<open>now\<close>.\<close>

definition ladderEnd :: "ladder \<Rightarrow> int \<Rightarrow> nat \<Rightarrow> nat list \<Rightarrow> segment" where
  "ladderEnd l now r rest st =
     (let p = heap st r;
          due = (case l of
                   ScalpLadder \<Rightarrow> now - entryTime p > maxPositionAge \<and> pnlPercent p \<le> 3
                 | RunnerLadder \<Rightarrow> now - entryTime p > runner_maxDuration \<and> pnlPercent p \<le> 5)
      in if due then closeAsk r Timeout (KSlow rest) st else slowNext rest st)"

text \<open>The take-profit loop from the index \<open>i\<close>, over the rungs from \<open>i\<close> on: it stops at
  the first rung that is triggered and asks for the partial sell; the assignment to
  \<open>p.takeProfitStage\<close> is left to the continuation.\<close>

fun ladderScan ::
  "ladder \<Rightarrow> int \<Rightarrow> nat \<Rightarrow> secure_profit list \<Rightarrow> nat \<Rightarrow> nat list \<Rightarrow> segment" where
  "ladderScan l now r [] i rest st = ladderEnd l now r rest st"
| "ladderScan l now r (sp # later) i rest st =
     (if pnlPercent (heap st r) \<ge> triggerPercent sp * 100 then
        partialAsk r (sellPercent sp * 100) (rungLabel l (triggerPercent sp * 100))
          (KLadder l r i rest) st
      else ladderScan l now r later (i + 1) rest st)"

definition ladderFrom :: "ladder \<Rightarrow> int \<Rightarrow> nat \<Rightarrow> nat \<Rightarrow> nat list \<Rightarrow> segment" where
  "ladderFrom l now r i rest st = ladderScan l now r (drop i (rungs l)) i rest st"

text \<open>\<open>handleScalp\<close> and \<open>handleRunner\<close> from their entry to their first \<open>await\<close>.\<close>

definition enterScalp :: "int \<Rightarrow> nat \<Rightarrow> real \<Rightarrow> nat list \<Rightarrow> segment" where
  "enterScalp now r highestPnl rest st =
     (let p = heap st r in
      if highestPnl \<ge> 12 \<and> pnlPercent p \<le> 1 then closeAsk r Trailing_stop (KSlow rest) st
      else if highestPnl > 8
              \<and> currentPriceSol p \<le> highestPriceSol p * (1 - getScalpTrail highestPnl) then
        (if pnlPercent p > 0
         then (Some (AwaitSent (KTrail r rest)),
               emit [NotifyTrailingStop (symbol p) (pnlPercent p) (pnlSol p) highestPnl] st)
         else closeAsk r Trailing_stop (KSlow rest) st)
      else ladderFrom ScalpLadder now r (takeProfitStage p) rest st)"

definition enterRunner :: "int \<Rightarrow> nat \<Rightarrow> real \<Rightarrow> nat list \<Rightarrow> segment" where
  "enterRunner now r highestPnl rest st =
     (let p = heap st r in
      if highestPnl > 10
         \<and> currentPriceSol p \<le> highestPriceSol p * (1 - getRunnerTrail highestPnl) then
        (if pnlPercent p > 0
         then (Some (AwaitSent (KTrail r rest)),
               emit [NotifyTrailingStop (symbol p) (pnlPercent p) (pnlSol p) highestPnl] st)
         else closeAsk r Trailing_stop (KSlow rest) st)
      else ladderFrom RunnerLadder now r (takeProfitStage p) rest st)"

definition enterHandler :: "int \<Rightarrow> nat \<Rightarrow> real \<Rightarrow> nat list \<Rightarrow> segment" where
  "enterHandler now r highestPnl rest st =
     (if isRunner (heap st r) then enterRunner now r highestPnl rest st
      else enterScalp now r highestPnl rest st)"

text \<open>\<open>checkPosition\<close> from the answer of \<open>fetchCurrentPrice\<close> (line 172). Neither
  \<open>checkPosition\<close> nor the handlers read \<open>position.status\<close>.\<close>

definition slowAfterPrice :: "int \<Rightarrow> real option \<Rightarrow> nat \<Rightarrow> nat list \<Rightarrow> segment" where
  "slowAfterPrice now price r rest st =
     (case price of
        None \<Rightarrow> slowNext rest st
      | Some x \<Rightarrow>
          if x = 0 then slowNext rest st
          else
            let st1 = slowRefresh x r st;
                p = heap st1 r;
                highestPnl = ((highestPriceSol p - entryPriceSol p) / entryPriceSol p) * 100
            in
            if \<not> isRunner p \<and> pnlPercent p \<ge> 15 then (Some (AwaitRunner r highestPnl rest), st1)
            else enterHandler now r highestPnl rest st1)"

text \<open>\<open>checkPosition\<close> from the answer of \<open>checkIfRunner\<close> (line 184).\<close>

definition slowAfterRunner :: "int \<Rightarrow> bool \<Rightarrow> nat \<Rightarrow> real \<Rightarrow> nat list \<Rightarrow> segment" where
  "slowAfterRunner now promoted r highestPnl rest st =
     enterHandler now r highestPnl rest
       (if promoted
        then updPos r (\<lambda>q. q\<lparr>isRunner := True, runnerPromotedAt := Some now\<rparr>) st
        else st)"

subsection \<open>Continuations\<close>

definition proceed :: "kont \<Rightarrow> int \<Rightarrow> segment" where
  "proceed k now st =
     (case k of
        KFast tick rest \<Rightarrow> fastLoop tick rest st
      | KSlow rest \<Rightarrow> slowNext rest st
      | KTrail r rest \<Rightarrow> closeAsk r Trailing_stop (KSlow rest) st
      | KLadder l r i rest \<Rightarrow>
          ladderFrom l now r (i + 1) rest (updPos r (\<lambda>q. q\<lparr>takeProfitStage := i + 1\<rparr>) st))"

subsection \<open>The buy path\<close>

text \<open>\<open>executeDirectBuy\<close> up to the pre-buy price read, from its answer to the call of
  \<open>executeBuy\<close>, and from the answer of \<open>executeBuy\<close> on. The order is sized in the first
  segment and applied in the last.\<close>

definition buyStart :: "int \<Rightarrow> token_analysis \<Rightarrow> segment" where
  "buyStart now analysis st =
     (case shouldBuy now analysis st of
        (None, st1) \<Rightarrow> (None, st1)
      | (Some order, st1) \<Rightarrow> (Some (AwaitPreBuy analysis order), st1))"

definition buyAfterPrice :: "real option \<Rightarrow> token_analysis \<Rightarrow> trade_order \<Rightarrow> segment" where
  "buyAfterPrice preBuyPrice analysis order st =
     (case preBuyPrice of
        None \<Rightarrow> (None, st)
      | Some pre \<Rightarrow>
          if pre = 0 then (None, st)
          else if priceSol (token analysis) > 0
                  \<and> ((pre - priceSol (token analysis)) / priceSol (token analysis)) * 100 < -8
          then (None, st)
          else (Some (AwaitBuy analysis order), emit [ExecuteBuy order] st))"

definition buyAfterFill ::
  "int \<Rightarrow> string \<Rightarrow> buy_result \<Rightarrow> token_analysis \<Rightarrow> trade_order \<Rightarrow> bot_state \<Rightarrow> bot_state" where
  "buyAfterFill now newId result analysis order st =
     (case (b_signature result, b_tokenAmount result, b_priceSol result) of
        (Some sig, Some amt, Some prc) \<Rightarrow>
          if b_success result \<and> sig \<noteq> [] \<and> amt \<noteq> 0 \<and> prc \<noteq> 0 then
            emit [NotifyBuy (t_symbol (token analysis)) (t_mintAddress (token analysis))
                    (amountSol order) (a_score analysis) sig]
              (openPosition (newPosition now newId analysis order sig amt prc) st)
          else st
      | _ \<Rightarrow> st)"

subsection \<open>Events\<close>

text \<open>What settles a promise: the prices of \<open>Promise.allSettled\<close> (\<open>None\<close> also for a
  fetch that was rejected), one price, the answer of \<open>checkIfRunner\<close>, of \<open>executeSell\<close>,
  of the notifier, the pre-buy price, and the answer of \<open>executeBuy\<close> with the identifier
  that the clock and the random suffix give to the new position.\<close>

datatype answer =
    APrices "nat \<Rightarrow> real option"
  | APrice "real option"
  | APromoted bool
  | ASold sell_result
  | ASent
  | APreBuy "real option"
  | ABought buy_result string

text \<open>The segment that a task runs when its promise settles with the answer \<open>a\<close>, at the
  clock reading \<open>now\<close>; \<open>None\<close> when the answer is not of the kind the task waits for.\<close>

definition resume ::
  "int \<Rightarrow> answer \<Rightarrow> task \<Rightarrow> bot_state \<Rightarrow> (task option \<times> bot_state) option" where
  "resume now a t st =
     (case t of
        AwaitPrices tick snapshot \<Rightarrow>
          (case a of
             APrices f \<Rightarrow> Some (fastLoop tick (map (\<lambda>r. (r, f r)) snapshot) st)
           | _ \<Rightarrow> None)
      | AwaitSlowPrice r rest \<Rightarrow>
          (case a of APrice x \<Rightarrow> Some (slowAfterPrice now x r rest st) | _ \<Rightarrow> None)
      | AwaitRunner r highestPnl rest \<Rightarrow>
          (case a of
             APromoted b \<Rightarrow> Some (slowAfterRunner now b r highestPnl rest st)
           | _ \<Rightarrow> None)
      | AwaitClose r why k \<Rightarrow>
          (case a of
             ASold res \<Rightarrow> Some (Some (AwaitSent k), closeSettle res r why st)
           | _ \<Rightarrow> None)
      | AwaitPartial r pct why k \<Rightarrow>
          (case a of
             ASold res \<Rightarrow>
               Some (if partialNotifies res r pct st
                     then (Some (AwaitSent k), partialSettle res r pct why st)
                     else proceed k now (partialSettle res r pct why st))
           | _ \<Rightarrow> None)
      | AwaitSent k \<Rightarrow> (case a of ASent \<Rightarrow> Some (proceed k now st) | _ \<Rightarrow> None)
      | AwaitPreBuy analysis order \<Rightarrow>
          (case a of APreBuy x \<Rightarrow> Some (buyAfterPrice x analysis order st) | _ \<Rightarrow> None)
      | AwaitBuy analysis order \<Rightarrow>
          (case a of
             ABought result newId \<Rightarrow>
               Some (None, buyAfterFill now newId result analysis order st)
           | _ \<Rightarrow> None))"

text \<open>An event of the event loop: a call of \<open>executeDirectBuy\<close>, a tick of the 1.5 second
  timer or of the 2 second timer (neither waits for the invocation it started before),
  the settling of the promise that the pending task number \<open>k\<close> awaits, the daily reset,
  and the balance read of \<open>syncCapital\<close> settling (\<open>syncCapital\<close> reads and writes the
  ledger only after its one \<open>await\<close>).\<close>

datatype event =
    StartBuy int token_analysis
  | StartFast int
  | StartSlow
  | Resume nat answer int
  | DailyReset
  | SyncCapital real

text \<open>The state of the engine: the invocations that wait at an \<open>await\<close>, oldest first,
  and the ledger. A segment that ends in an \<open>await\<close> leaves its task in place of the one
  that ran; a segment that ends the invocation removes it.\<close>

type_synonym engine = "task list \<times> bot_state"

definition spawn :: "task list \<Rightarrow> task option \<times> bot_state \<Rightarrow> engine" where
  "spawn ts out = (case fst out of None \<Rightarrow> (ts, snd out) | Some t \<Rightarrow> (ts @ [t], snd out))"

definition reschedule :: "task list \<Rightarrow> nat \<Rightarrow> task option \<times> bot_state \<Rightarrow> engine" where
  "reschedule ts k out =
     (case fst out of
        None \<Rightarrow> (take k ts @ drop (k + 1) ts, snd out)
      | Some t \<Rightarrow> (ts[k := t], snd out))"

fun step :: "event \<Rightarrow> engine \<Rightarrow> engine" where
  "step (StartBuy now analysis) (ts, st) = spawn ts (buyStart now analysis st)"
| "step (StartFast now) (ts, st) = spawn ts (fastStart now st)"
| "step StartSlow (ts, st) = spawn ts (slowStart st)"
| "step (Resume k a now) (ts, st) =
     (if k < length ts then
        (case resume now a (ts ! k) st of
           None \<Rightarrow> (ts, st)
         | Some out \<Rightarrow> reschedule ts k out)
      else (ts, st))"
| "step DailyReset (ts, st) = (ts, resetDailyCounters st)"
| "step (SyncCapital balance) (ts, st) = (ts, syncCapital balance st)"

fun steps :: "event list \<Rightarrow> engine \<Rightarrow> engine" where
  "steps [] eng = eng"
| "steps (e # es) eng = steps es (step e eng)"

text \<open>The ledger after the events \<open>es\<close>, from the ledger \<open>st\<close> with nothing pending.\<close>

definition run :: "event list \<Rightarrow> bot_state \<Rightarrow> bot_state" where
  "run es st = snd (steps es ([], st))"

subsection \<open>An invocation on its own\<close>

text \<open>\<open>alone ans now out st'\<close>: the invocation whose last segment gave \<open>out\<close> runs to its
  end with nothing else in between, every promise it awaits being settled at once with
  the answer that \<open>ans\<close> gives for it, at the clock reading \<open>now\<close>, and leaves the ledger
  \<open>st'\<close>. The three functions after it turn the answers that the functions of the
  previous sections take as arguments into answers to tasks.\<close>

inductive alone :: "(task \<Rightarrow> answer) \<Rightarrow> int \<Rightarrow> task option \<times> bot_state \<Rightarrow> bot_state \<Rightarrow> bool"
  for ans :: "task \<Rightarrow> answer" and now :: int where
    finished: "alone ans now (None, st) st"
  | settled: "resume now (ans t) t st = Some out \<Longrightarrow> alone ans now out st'
               \<Longrightarrow> alone ans now (Some t, st) st'"

definition fastAnswers :: "(nat \<Rightarrow> real option) \<Rightarrow> (nat \<Rightarrow> sell_result) \<Rightarrow> task \<Rightarrow> answer" where
  "fastAnswers price sell t =
     (case t of
        AwaitPrices tick snapshot \<Rightarrow> APrices price
      | AwaitClose r why k \<Rightarrow> ASold (sell r)
      | _ \<Rightarrow> ASent)"

definition slowAnswers :: "slow_env \<Rightarrow> task \<Rightarrow> answer" where
  "slowAnswers env t =
     (case t of
        AwaitSlowPrice r rest \<Rightarrow> APrice (se_price env r)
      | AwaitRunner r highestPnl rest \<Rightarrow> APromoted (se_promoted env r)
      | AwaitClose r why k \<Rightarrow> ASold (se_sellClose env r)
      | AwaitPartial r pct why k \<Rightarrow>
          (case k of
             KLadder l x i rest \<Rightarrow> ASold (se_sellTP env r i)
           | _ \<Rightarrow> ASold (se_sellClose env r))
      | _ \<Rightarrow> ASent)"

definition buyAnswers :: "real option \<Rightarrow> buy_result \<Rightarrow> string \<Rightarrow> task \<Rightarrow> answer" where
  "buyAnswers preBuyPrice result newId t =
     (case t of
        AwaitPreBuy analysis order \<Rightarrow> APreBuy preBuyPrice
      | AwaitBuy analysis order \<Rightarrow> ABought result newId
      | _ \<Rightarrow> ASent)"

section \<open>Dip buyer (analyzer/dipBuyer.ts)\<close>

text \<open>\<open>checkWatchlist\<close> is started every three seconds by a timer that does not wait for
  the pass before. The functions of this section give one pass that runs alone: the
  price reads, the two-second wait before the confirmation read and the buy callback all
  settle before another pass, or \<open>addToWatchlist\<close>, touches the watchlist.\<close>

definition maxWatchDuration :: int where "maxWatchDuration = 10 * 60 * 1000"
definition minDipPercent :: real where "minDipPercent = 5"
definition maxDipPercent :: real where "maxDipPercent = 35"
definition reboundConfirmPercent :: real where "reboundConfirmPercent = 2"

datatype watch_state =
  Watching | Dip_detected | Waiting_rebound | Buy_signal | Expired | Abandoned

record watched_token =
  w_analysis :: token_analysis
  addedAt :: int
  highestPrice :: real
  lowestSinceHigh :: real
  currentPrice :: real
  lastCheck :: int
  dipDetected :: bool
  dipPercent :: real
  wstate :: watch_state

text \<open>The answers of the outside world to the check of one entry: the price read, the
  confirmation re-read two seconds later, and whether the awaited buy callback throws.\<close>

record watch_env =
  we_price :: "real option"
  we_confirmPrice :: "real option"
  we_callbackThrows :: bool

text \<open>What the check of one entry leaves behind: the entry object, whether
  \<open>watchlist.delete(mint)\<close> ran, and the calls made to the buy callback.\<close>

record check_outcome =
  entry :: watched_token
  removed :: bool
  signals :: "token_analysis list"

definition keep :: "watched_token \<Rightarrow> check_outcome" where
  "keep w = \<lparr>entry = w, removed = False, signals = []\<rparr>"

definition discard :: "watched_token \<Rightarrow> check_outcome" where
  "discard w = \<lparr>entry = w, removed = True, signals = []\<rparr>"

text \<open>Lines 133 to 149: current price, high-water mark, low since the high, dip.\<close>

definition trackPrice :: "int \<Rightarrow> real \<Rightarrow> watched_token \<Rightarrow> watched_token" where
  "trackPrice now price w =
     (let w1 = w\<lparr>currentPrice := price, lastCheck := now\<rparr>;
          w2 = (if price > highestPrice w1
                then w1\<lparr>highestPrice := price, lowestSinceHigh := price\<rparr> else w1);
          w3 = (if price < lowestSinceHigh w2 then w2\<lparr>lowestSinceHigh := price\<rparr> else w2)
      in w3\<lparr>dipPercent :=
               ((highestPrice w3 - lowestSinceHigh w3) / highestPrice w3) * 100\<rparr>)"

text \<open>The rebound branch of \<open>waiting_rebound\<close> (lines 181 to 209). An exception of the
  callback is caught by the loop's \<open>try\<close>, and then the deletion after it does not run.\<close>

definition confirmRebound :: "watch_env \<Rightarrow> real \<Rightarrow> watched_token \<Rightarrow> check_outcome" where
  "confirmRebound env price w =
     (let reboundFromLow = ((price - lowestSinceHigh w) / lowestSinceHigh w) * 100 in
      if reboundFromLow \<ge> reboundConfirmPercent then
        (case we_confirmPrice env of
           None \<Rightarrow> keep w
         | Some confirmPrice \<Rightarrow>
             if confirmPrice = 0 \<or> confirmPrice \<le> lowestSinceHigh w then keep w
             else if ((confirmPrice - lowestSinceHigh w) / lowestSinceHigh w) * 100
                       < reboundConfirmPercent
             then keep w
             else \<lparr>entry = w\<lparr>wstate := Buy_signal\<rparr>,
                   removed = \<not> we_callbackThrows env,
                   signals = [w_analysis w]\<rparr>)
      else keep w)"

text \<open>The body of the loop of \<open>checkWatchlist\<close> for one entry.\<close>

definition checkEntry :: "int \<Rightarrow> watch_env \<Rightarrow> watched_token \<Rightarrow> check_outcome" where
  "checkEntry now env w =
     (if now - addedAt w > maxWatchDuration then discard (w\<lparr>wstate := Expired\<rparr>)
      else case we_price env of
        None \<Rightarrow> keep w
      | Some price \<Rightarrow>
          if price = 0 then keep w
          else
            let w1 = trackPrice now price w;
                dipFromHigh = dipPercent w1
            in
            (case wstate w1 of
               Watching \<Rightarrow>
                 if dipFromHigh \<ge> maxDipPercent then discard (w1\<lparr>wstate := Abandoned\<rparr>)
                 else if dipFromHigh \<ge> minDipPercent then
                   keep (w1\<lparr>dipDetected := True, wstate := Waiting_rebound\<rparr>)
                 else keep w1
             | Waiting_rebound \<Rightarrow>
                 if dipFromHigh \<ge> maxDipPercent then discard (w1\<lparr>wstate := Abandoned\<rparr>)
                 else confirmRebound env price w1
             | _ \<Rightarrow> keep w1))"


section \<open>Invariants\<close>




fun sellLabel :: "nat \<Rightarrow> effect \<Rightarrow> sell_reason list" where
  "sellLabel r (ExecuteSell x share why) = (if x = r then [why] else [])"
| "sellLabel r _ = []"

definition requested :: "nat \<Rightarrow> bot_state \<Rightarrow> sell_reason list" where
  "requested r st = concat (map (sellLabel r) (effects st))"


section \<open>Example inputs\<close>

text \<open>Concrete ledgers and opportunities at which the properties below are evaluated.
  \<open>blankPosition\<close> fills the cells of the store that hold no object yet.\<close>

definition blankPosition :: position where
  "blankPosition =
     \<lparr>pos_id = [], mintAddress = [], symbol = [], name = [],
      entryPriceSol = 1, entryAmountSol = 0, tokenAmount = 0, entryTime = 0,
      entryTxSignature = [], score = 0, currentPriceSol = 1, highestPriceSol = 1,
      pnlPercent = 0, pnlSol = 0, remainingPercent = 0, takeProfitStage = 0,
      trailingStopActive = False, isRunner = False, runnerPromotedAt = None,
      status = St_closed, closeReason = None\<rparr>"

definition ledger0 :: bot_state where
  "ledger0 = initialState 0 0.6 blankPosition"

definition pausedLedger :: bot_state where
  "pausedLedger = ledger0\<lparr>isPaused := True, pauseUntil := Some 5000\<rparr>"

definition fullLossLedger :: bot_state where
  "fullLossLedger = ledger0\<lparr>openPositions := [0..<18], nextRef := 18, dailyPnlSol := - 0.2,
      dailyPnlPercent := - (0.2 / 0.6 * 100), availableCapitalSol := 0.4\<rparr>"

definition lossLedger :: bot_state where
  "lossLedger = ledger0\<lparr>dailyPnlSol := - 0.18, dailyPnlPercent := - 30,
      availableCapitalSol := 0.42\<rparr>"

definition justPaused :: bot_state where
  "justPaused = snd (canOpenPosition 1000 lossLedger)"

definition thinLedger :: bot_state where
  "thinLedger = initialState 0 0.07 blankPosition"

definition highScore :: token_analysis where
  "highScore =
     \<lparr>token = \<lparr>t_mintAddress = ''MintA'', t_symbol = ''AAA'', t_name = ''Token A'',
                priceSol = 1, marketCap = 80000, volume5m = 1000,
                buyCount5m = 10, sellCount5m = 10\<rparr>,
      a_score = 65, confidence = High\<rparr>"

definition buyFill :: buy_result where
  "buyFill = \<lparr>b_success = True, b_signature = Some ''sig1'',
               b_tokenAmount = Some 0.0324, b_priceSol = Some 1\<rparr>"

definition oneLedger :: bot_state where
  "oneLedger = executeDirectBuy 0 ''pos_1'' (Some 1) buyFill highScore ledger0"

definition scalpPosition :: position where
  "scalpPosition =
     \<lparr>pos_id = ''pos_1'', mintAddress = ''MintA'', symbol = ''AAA'', name = ''Token A'',
      entryPriceSol = 1, entryAmountSol = 0.0324, tokenAmount = 0.0324, entryTime = 0,
      entryTxSignature = ''sig1'', score = 65, currentPriceSol = 1, highestPriceSol = 1,
      pnlPercent = 0, pnlSol = 0, remainingPercent = 100, takeProfitStage = 0,
      trailingStopActive = False, isRunner = False, runnerPromotedAt = None,
      status = St_open, closeReason = None\<rparr>"

definition highOrder :: trade_order where
  "highOrder = \<lparr>o_mintAddress = ''MintA'', o_symbol = ''AAA'', amountSol = 0.0324,
      o_score = 65, o_confidence = High, priority = HighPriority\<rparr>"

definition sellFails :: sell_result where
  "sellFails = \<lparr>success = False, solReceived = None\<rparr>"

definition sellFills :: sell_result where
  "sellFills = \<lparr>success = True, solReceived = Some 0.012\<rparr>"

definition runnerScore :: token_analysis where
  "runnerScore =
     \<lparr>token = \<lparr>t_mintAddress = ''MintB'', t_symbol = ''BBB'', t_name = ''Token B'',
                priceSol = 1, marketCap = 40000, volume5m = 1000,
                buyCount5m = 12, sellCount5m = 8\<rparr>,
      a_score = 65, confidence = High\<rparr>"

definition runnerLedger :: bot_state where
  "runnerLedger = executeDirectBuy 0 ''pos_2'' (Some 1) buyFill runnerScore ledger0"

definition runnerPosition :: position where
  "runnerPosition =
     \<lparr>pos_id = ''pos_2'', mintAddress = ''MintB'', symbol = ''BBB'', name = ''Token B'',
      entryPriceSol = 1, entryAmountSol = 0.0324, tokenAmount = 0.0324, entryTime = 0,
      entryTxSignature = ''sig1'', score = 65, currentPriceSol = 1, highestPriceSol = 1,
      pnlPercent = 0, pnlSol = 0, remainingPercent = 100, takeProfitStage = 0,
      trailingStopActive = False, isRunner = True, runnerPromotedAt = Some 0,
      status = St_open, closeReason = None\<rparr>"

definition runnerOrder :: trade_order where
  "runnerOrder = \<lparr>o_mintAddress = ''MintB'', o_symbol = ''BBB'', amountSol = 0.0324,
      o_score = 65, o_confidence = High, priority = HighPriority\<rparr>"

definition failedClose :: bot_state where
  "failedClose = fastCheckParallel 20000 (\<lambda>_. Some 0.9) (\<lambda>_. sellFails) oneLedger"

definition failedPartial :: bot_state where
  "failedPartial = checkPosition 20000 (Some 1.25) False (\<lambda>_. sellFails) sellFails 0 oneLedger"

definition sunkRunner :: bot_state where
  "sunkRunner = fastCheckParallel 100000 (\<lambda>_. Some 0.75) (\<lambda>_. sellFills) runnerLedger"



definition sellAll :: sell_result where
  "sellAll = \<lparr>success = True, solReceived = Some 0.029\<rparr>"

definition closedOutLedger :: bot_state where
  "closedOutLedger = fastCheckParallel 20000 (\<lambda>_. Some 0.9) (\<lambda>_. sellAll) oneLedger"








text \<open>Two ticks of the slow timer on \<open>oneLedger\<close>, the second starting while the first
  waits for its price; the price is 1.45 for both, \<open>checkIfRunner\<close> answers no, and every
  sell fills.\<close>

definition overlappingTicks :: "event list" where
  "overlappingTicks =
     [StartSlow, StartSlow,
      Resume 0 (APrice (Some 1.45)) 20000, Resume 1 (APrice (Some 1.45)) 20000,
      Resume 0 (APromoted False) 20500, Resume 0 (ASold sellFills) 21000,
      Resume 1 (APromoted False) 21100, Resume 1 (ASold sellFills) 21600,
      Resume 0 ASent 21700, Resume 0 (ASold sellFills) 22200,
      Resume 1 ASent 22300, Resume 1 (ASold sellFills) 22800,
      Resume 0 ASent 22900, Resume 0 ASent 23400]"

definition oversold :: bot_state where
  "oversold = run overlappingTicks oneLedger"

text \<open>A tick of the slow timer on \<open>oneLedger\<close> whose price read is still in flight when a
  tick of the fast timer reads a price of 0.9 and takes the quick-cut stop; the price
  that the slow tick then gets is 1.25.\<close>

definition closeDuringFetch :: "event list" where
  "closeDuringFetch =
     [StartSlow, StartFast 20000,
      Resume 1 (APrices (\<lambda>_. Some 0.9)) 20100, Resume 1 (ASold sellAll) 20600,
      Resume 1 ASent 20700,
      Resume 0 (APrice (Some 1.25)) 20800, Resume 0 (APromoted False) 21300,
      Resume 0 (ASold sellFills) 21800, Resume 0 ASent 21900]"

definition soldAfterClose :: bot_state where
  "soldAfterClose = run closeDuringFetch oneLedger"


definition quickCutAlone :: "event list" where
  "quickCutAlone =
     [StartFast 20000, Resume 0 (APrices (\<lambda>_. Some 0.9)) 20000, Resume 0 (ASold sellAll) 20000,
      Resume 0 ASent 20000]"

section \<open>Properties\<close>

lemmas risk_config =
  initialCapital_def reserveAmount_def maxOpenPositions_def positionSizes_low_def
  positionSizes_medium_def positionSizes_high_def maxDailyLoss_def pauseDuration_def

subsection \<open>Daily reset and pause\<close>

text \<open>C10: \<open>resetDailyCounters\<close> sets \<open>isPaused\<close> to false and \<open>pauseUntil\<close> to null,
  whatever the ledger was, so also when \<open>pauseUntil\<close> is still in the future. A gate
  evaluation right after the reset is denied neither for a pause in force nor for the
  daily loss, and leaves the ledger unpaused.\<close>

theorem resetDailyCounters_clears_pause:
  "isPaused (resetDailyCounters st) = False
   \<and> pauseUntil (resetDailyCounters st) = None
   \<and> reason (fst (canOpenPosition now (resetDailyCounters st))) \<noteq> Some (PausedFor m)
   \<and> reason (fst (canOpenPosition now (resetDailyCounters st))) \<noteq> Some DailyLossPause
   \<and> isPaused (snd (canOpenPosition now (resetDailyCounters st))) = False"
  by (simp add: resetDailyCounters_def canOpenPosition_def gateChecks_def deny_def allow_def Let_def)

theorem resetDailyCounters_clears_pause_witness:
  "isPaused pausedLedger \<and> pauseUntil pausedLedger = Some 5000
   \<and> isPaused (resetDailyCounters pausedLedger) = False
   \<and> pauseUntil (resetDailyCounters pausedLedger) = None
   \<and> allowed (fst (canOpenPosition 1000 (resetDailyCounters pausedLedger)))"
  using resetDailyCounters_clears_pause [of pausedLedger 1000 0]
  by (simp add: pausedLedger_def ledger0_def initialState_def resetDailyCounters_def
      canOpenPosition_def gateChecks_def deny_def allow_def getDeployableCapital_def risk_config)

subsection \<open>The pause block of the gate\<close>

text \<open>C4: with \<open>isPaused\<close> true and an expiry \<open>t\<close>, at a clock reading \<open>now\<close> (epoch
  milliseconds, not negative): while \<open>now < t\<close> the gate denies and leaves the ledger as it
  is; once \<open>t \<le> now\<close> the gate is the remaining checks run on the ledger with \<open>isPaused\<close>
  false and \<open>pauseUntil\<close> null, and unless those checks pause again for the daily loss,
  that cleared ledger is what the call leaves behind.\<close>

theorem canOpenPosition_pause:
  assumes paused: "isPaused st" and until: "pauseUntil st = Some t" and clock: "0 \<le> now"
  shows
    "(now < t \<longrightarrow> \<not> allowed (fst (canOpenPosition now st)) \<and> snd (canOpenPosition now st) = st)
   \<and> (t \<le> now \<longrightarrow>
         canOpenPosition now st = gateChecks now (st\<lparr>isPaused := False, pauseUntil := None\<rparr>))
   \<and> (t \<le> now \<longrightarrow> reason (fst (canOpenPosition now st)) \<noteq> Some DailyLossPause \<longrightarrow>
         snd (canOpenPosition now st) = st\<lparr>isPaused := False, pauseUntil := None\<rparr>)"
proof -
  have active: "canOpenPosition now st = (deny (PausedFor (remainingMinutes t now)), st)"
    if "now < t"
  proof -
    from that clock have "t \<noteq> 0" by simp
    with that paused until show ?thesis by (simp add: canOpenPosition_def)
  qed
  have expired: "canOpenPosition now st = gateChecks now (endPause st)" if "t \<le> now"
    using that paused until by (simp add: canOpenPosition_def)
  have quiet: "snd (gateChecks now s) = s"
    if "reason (fst (gateChecks now s)) \<noteq> Some DailyLossPause" for s
    using that by (auto simp: gateChecks_def deny_def Let_def split: if_splits)
  show ?thesis
  proof (intro conjI impI)
    assume "now < t"
    then show "\<not> allowed (fst (canOpenPosition now st))" and "snd (canOpenPosition now st) = st"
      by (simp_all add: active deny_def)
  next
    assume "t \<le> now"
    then show "canOpenPosition now st = gateChecks now (st\<lparr>isPaused := False, pauseUntil := None\<rparr>)"
      by (simp add: expired endPause_def)
  next
    assume "t \<le> now" and "reason (fst (canOpenPosition now st)) \<noteq> Some DailyLossPause"
    then show "snd (canOpenPosition now st) = st\<lparr>isPaused := False, pauseUntil := None\<rparr>"
      using quiet [of "endPause st"] by (simp add: expired endPause_def)
  qed
qed

theorem canOpenPosition_pause_witness:
  "\<not> allowed (fst (canOpenPosition 1000 pausedLedger))
   \<and> snd (canOpenPosition 1000 pausedLedger) = pausedLedger
   \<and> allowed (fst (canOpenPosition 5000 pausedLedger))
   \<and> isPaused (snd (canOpenPosition 5000 pausedLedger)) = False
   \<and> pauseUntil (snd (canOpenPosition 5000 pausedLedger)) = None"
proof -
  have p: "isPaused pausedLedger" and u: "pauseUntil pausedLedger = Some 5000"
    by (simp_all add: pausedLedger_def)
  have g: "gateChecks 5000 (pausedLedger\<lparr>isPaused := False, pauseUntil := None\<rparr>)
             = (allow, pausedLedger\<lparr>isPaused := False, pauseUntil := None\<rparr>)"
    by (simp add: gateChecks_def pausedLedger_def ledger0_def initialState_def
        getDeployableCapital_def risk_config)
  from canOpenPosition_pause [OF p u, of 1000] canOpenPosition_pause [OF p u, of 5000] g
  show ?thesis by (simp add: allow_def)
qed

subsection \<open>The daily-loss rule of the gate\<close>

text \<open>Two ledgers whose daily loss is at or above the ceiling. In the first the gate has
  just paused for it: the next call, a second later, denies for the pause and sends
  nothing to the notifier. In the second 18 positions are open: the gate denies at the
  position cap, before the daily-loss rule, does not pause and sends nothing.\<close>

theorem canOpenPosition_daily_loss_counterexample:
  "dailyPnlSol justPaused < 0
   \<and> \<bar>dailyPnlSol justPaused\<bar> / initialCapital \<ge> maxDailyLoss
   \<and> canOpenPosition 2000 justPaused = (deny (PausedFor 20), justPaused)
   \<and> dailyPnlSol fullLossLedger < 0
   \<and> \<bar>dailyPnlSol fullLossLedger\<bar> / initialCapital \<ge> maxDailyLoss
   \<and> canOpenPosition 1000 fullLossLedger = (deny MaxPositions, fullLossLedger)
   \<and> \<not> isPaused (snd (canOpenPosition 1000 fullLossLedger))
   \<and> effects (snd (canOpenPosition 1000 fullLossLedger)) = []"
proof -
  have paused: "justPaused = lossLedger\<lparr>isPaused := True, pauseUntil := Some 1201000,
      effects := [NotifyRiskAlert (- 30) 30]\<rparr>"
    by (simp add: justPaused_def lossLedger_def ledger0_def initialState_def canOpenPosition_def
        gateChecks_def risk_config)
  have first: "dailyPnlSol justPaused < 0"
    "\<bar>dailyPnlSol justPaused\<bar> / initialCapital \<ge> maxDailyLoss"
    "canOpenPosition 2000 justPaused = (deny (PausedFor 20), justPaused)"
    unfolding paused
    by (simp_all add: lossLedger_def canOpenPosition_def remainingMinutes_def risk_config)
  have second: "dailyPnlSol fullLossLedger < 0"
    "\<bar>dailyPnlSol fullLossLedger\<bar> / initialCapital \<ge> maxDailyLoss"
    "canOpenPosition 1000 fullLossLedger = (deny MaxPositions, fullLossLedger)"
    "effects fullLossLedger = []" "\<not> isPaused fullLossLedger"
    by (simp_all add: fullLossLedger_def ledger0_def initialState_def canOpenPosition_def
        gateChecks_def risk_config)
  from first second show ?thesis by simp
qed

text \<open>C5 (amended): when no unexpired pause is in force and fewer than
  \<open>maxOpenPositions\<close> positions are open, a negative daily P&L whose ratio to the initial
  capital reaches the ceiling (equality included) makes the gate deny, set \<open>isPaused\<close>,
  set \<open>pauseUntil\<close> to \<open>now + pauseDuration\<close>, which is strictly later than \<open>now\<close>, and
  send exactly one risk alert.\<close>

theorem canOpenPosition_daily_loss:
  "\<not> (isPaused st \<and> (\<exists>t. pauseUntil st = Some t \<and> t \<noteq> 0 \<and> now < t)) \<Longrightarrow>
   length (openPositions st) < maxOpenPositions \<Longrightarrow>
   dailyPnlSol st < 0 \<Longrightarrow>
   \<bar>dailyPnlSol st\<bar> / initialCapital \<ge> maxDailyLoss \<Longrightarrow>
     \<not> allowed (fst (canOpenPosition now st))
   \<and> reason (fst (canOpenPosition now st)) = Some DailyLossPause
   \<and> isPaused (snd (canOpenPosition now st))
   \<and> pauseUntil (snd (canOpenPosition now st)) = Some (now + pauseDuration)
   \<and> now < now + pauseDuration
   \<and> effects (snd (canOpenPosition now st))
       = effects st @ [NotifyRiskAlert (dailyPnlPercent st)
                         (\<bar>dailyPnlSol st\<bar> / initialCapital * 100)]"
  by (auto simp: canOpenPosition_def gateChecks_def endPause_def deny_def Let_def
      pauseDuration_def split: option.splits)

theorem canOpenPosition_daily_loss_witness:
  "\<bar>dailyPnlSol lossLedger\<bar> / initialCapital = maxDailyLoss
   \<and> \<not> allowed (fst (canOpenPosition 1000 lossLedger))
   \<and> isPaused (snd (canOpenPosition 1000 lossLedger))
   \<and> pauseUntil (snd (canOpenPosition 1000 lossLedger)) = Some 1201000
   \<and> effects (snd (canOpenPosition 1000 lossLedger)) = [NotifyRiskAlert (- 30) 30]"
proof -
  have a: "\<not> (isPaused lossLedger \<and> (\<exists>t. pauseUntil lossLedger = Some t \<and> t \<noteq> 0 \<and> 1000 < t))"
    and b: "length (openPositions lossLedger) < maxOpenPositions"
    and c: "dailyPnlSol lossLedger < 0"
    and d: "\<bar>dailyPnlSol lossLedger\<bar> / initialCapital \<ge> maxDailyLoss"
    and e: "\<bar>dailyPnlSol lossLedger\<bar> / initialCapital = maxDailyLoss"
    by (simp_all add: lossLedger_def ledger0_def initialState_def risk_config)
  from canOpenPosition_daily_loss [OF a b c d] e show ?thesis
    by (simp add: lossLedger_def ledger0_def initialState_def risk_config)
qed

subsection \<open>Position size\<close>

text \<open>A session that starts on a balance of 0.07 SOL has a deployable capital of 0.01
  SOL: the gate allows, and the size is the cap 0.0015 SOL, below the dust floor.\<close>

theorem calculatePositionSize_counterexample:
  "calculatePositionSize highScore thinLedger = 0.0015
   \<and> \<not> (0.003 \<le> calculatePositionSize highScore thinLedger)
   \<and> allowed (fst (canOpenPosition 1000 thinLedger))"
  by (simp add: calculatePositionSize_def adjustedSize_def getDeployableCapital_def
      sizePercent_def thinLedger_def ledger0_def initialState_def highScore_def
      canOpenPosition_def gateChecks_def allow_def risk_config)

text \<open>C6 (amended): the size is at most 15 percent of the deployable capital, always;
  it is at least the dust size 0.003 SOL when that cap is at least 0.003 SOL, and equal to
  the cap otherwise. Floor, then cap, are applied to the size that has gone through the
  loss and win-streak adjustments.\<close>

theorem calculatePositionSize_bounds:
  "calculatePositionSize analysis st \<le> 0.15 * getDeployableCapital st
   \<and> (0.003 \<le> 0.15 * getDeployableCapital st \<longrightarrow> 0.003 \<le> calculatePositionSize analysis st)
   \<and> (0.15 * getDeployableCapital st < 0.003 \<longrightarrow>
        calculatePositionSize analysis st = 0.15 * getDeployableCapital st)
   \<and> calculatePositionSize analysis st
        = min (getDeployableCapital st * 0.15) (max 0.003 (adjustedSize analysis st))"
proof -
  let ?cap = "getDeployableCapital st * 0.15"
  let ?floored = "max 0.003 (adjustedSize analysis st)"
  have size: "calculatePositionSize analysis st = min ?cap ?floored"
    by (simp add: calculatePositionSize_def)
  have floor: "0.003 \<le> ?floored" by simp
  have upper: "min ?cap ?floored \<le> ?cap" by simp
  have lower: "0.003 \<le> min ?cap ?floored" if "0.003 \<le> ?cap"
    using that floor by simp
  have capped: "min ?cap ?floored = ?cap" if "?cap < 0.003"
    using that floor by simp
  show ?thesis
    unfolding size using upper lower capped by (simp add: mult.commute)
qed

theorem calculatePositionSize_bounds_witness:
  "0.003 \<le> 0.15 * getDeployableCapital ledger0
   \<and> calculatePositionSize highScore ledger0 = 0.0324
   \<and> 0.003 \<le> calculatePositionSize highScore ledger0
   \<and> calculatePositionSize highScore ledger0 \<le> 0.15 * getDeployableCapital ledger0
   \<and> 0.15 * getDeployableCapital thinLedger < 0.003
   \<and> calculatePositionSize highScore thinLedger = 0.15 * getDeployableCapital thinLedger"
  using calculatePositionSize_bounds [of highScore ledger0]
    calculatePositionSize_bounds [of highScore thinLedger]
  by (simp add: calculatePositionSize_def adjustedSize_def getDeployableCapital_def
      sizePercent_def thinLedger_def ledger0_def initialState_def highScore_def risk_config)

subsection \<open>Example ledgers, evaluated\<close>

lemma oneLedger_eq:
  "oneLedger = ledger0\<lparr>heap := (heap ledger0)(0 := scalpPosition), nextRef := 1,
      openPositions := [0], availableCapitalSol := 0.5676,
      effects := [ExecuteBuy highOrder, NotifyBuy ''AAA'' ''MintA'' 0.0324 65 ''sig1'']\<rparr>"
  by (simp add: oneLedger_def executeDirectBuy_def shouldBuy_def canOpenPosition_def
      gateChecks_def allow_def calculatePositionSize_def adjustedSize_def sizePercent_def
      getDeployableCapital_def ledger0_def initialState_def highScore_def buyFill_def
      openPosition_def newPosition_def emit_def scalpPosition_def highOrder_def risk_config)

lemma runnerLedger_eq:
  "runnerLedger = ledger0\<lparr>heap := (heap ledger0)(0 := runnerPosition), nextRef := 1,
      openPositions := [0], availableCapitalSol := 0.5676,
      effects := [ExecuteBuy runnerOrder, NotifyBuy ''BBB'' ''MintB'' 0.0324 65 ''sig1'']\<rparr>"
  by (simp add: runnerLedger_def executeDirectBuy_def shouldBuy_def canOpenPosition_def
      gateChecks_def allow_def calculatePositionSize_def adjustedSize_def sizePercent_def
      getDeployableCapital_def ledger0_def initialState_def runnerScore_def buyFill_def
      openPosition_def newPosition_def emit_def runnerPosition_def runnerOrder_def risk_config)

lemmas monitor_config =
  secureProfits_def runner_secureProfits_def trailingLevels_def runner_trailing_levels_def
  deadVolumeTimeout_def deadVolumeExtension_def deadVolumeStopLoss_def maxPositionAge_def
  maxTrailingLoss_def runner_maxDuration_def

lemmas example_ledgers =
  ledger0_def initialState_def scalpPosition_def runnerPosition_def sellFails_def sellFills_def

subsection \<open>A sell that fails\<close>

text \<open>\<open>partialSell\<close> guards its updates with \<open>result.success\<close>: when the sell fails, the
  call to \<open>executeSell\<close> is all that happened. \<open>closePosition\<close> never reads the flag: it
  does the same for a failed sell as for a successful one that returned as much.\<close>

lemma partialSell_failed:
  "\<not> success res \<Longrightarrow>
     partialSell res r pct why st
       = emit [ExecuteSell r (sellShare pct (remainingPercent (heap st r))) why] st"
  by (simp add: partialSell_def Let_def)

lemma closePosition_ignores_success:
  "solReceived a = solReceived b \<Longrightarrow> closePosition a r why st = closePosition b r why st"
  by (simp add: closePosition_def received_def)

text \<open>C2: a sell that fails is to abort the close or partial exit and leave position and
  ledger as they were. The code does otherwise. On the ledger with one open position, a
  fast tick at a price of 0.9, twenty seconds after entry, takes the quick-cut stop;
  \<open>executeSell\<close> fails, and still the position is closed, its remaining fraction is 0, it
  has left the open set, and the ledger books a trade, a loss and the whole entry amount
  as lost. On the partial path, a slow tick at a price of 1.25 reaches the first rung;
  \<open>executeSell\<close> fails, \<open>partialSell\<close> leaves position and ledger as they were, and the
  loop still moves \<open>takeProfitStage\<close> from 0 to 1.\<close>

theorem failed_sell_changes_state:
  "status (heap oneLedger 0) = St_open
   \<and> remainingPercent (heap oneLedger 0) = 100
   \<and> takeProfitStage (heap oneLedger 0) = 0
   \<and> openPositions oneLedger = [0]
   \<and> dailyPnlSol oneLedger = 0
   \<and> status (heap failedClose 0) = St_closed
   \<and> remainingPercent (heap failedClose 0) = 0
   \<and> openPositions failedClose = []
   \<and> dailyPnlSol failedClose = - 0.0324
   \<and> dailyTradeCount failedClose = 1
   \<and> dailyLossCount failedClose = 1
   \<and> availableCapitalSol failedClose = availableCapitalSol oneLedger
   \<and> status (heap failedPartial 0) = St_open
   \<and> remainingPercent (heap failedPartial 0) = 100
   \<and> openPositions failedPartial = [0]
   \<and> dailyPnlSol failedPartial = 0
   \<and> availableCapitalSol failedPartial = availableCapitalSol oneLedger
   \<and> takeProfitStage (heap failedPartial 0) = 1"
  by (simp add: failedClose_def failedPartial_def oneLedger_eq fastCheckParallel_def
     example_ledgers fastCheckOne_def fastRefresh_def fastStops_def closePosition_def emit_def
     updPos_def checkPosition_def slowRefresh_def handleScalp_def scalpTakeProfit_def
     partialSell_def getScalpTrail_def getTrail_def received_def risk_config monitor_config
     Let_def)

subsection \<open>The trailing-loss ceiling\<close>

text \<open>C3: the fast loop is to close every position whose P&L is at or below the ceiling
  of -20 percent, runners included. The code does otherwise. On the ledger whose one
  position was classified a runner at entry, a fast tick at a price of 0.75 sets its P&L
  to -25 percent and leaves it open, in the open set, with no sell requested.\<close>

theorem runner_below_ceiling_stays_open:
  "isRunner (heap runnerLedger 0)
   \<and> status (heap runnerLedger 0) = St_open
   \<and> pnlPercent (heap sunkRunner 0) = - 25
   \<and> pnlPercent (heap sunkRunner 0) \<le> maxTrailingLoss
   \<and> status (heap sunkRunner 0) = St_open
   \<and> openPositions sunkRunner = [0]
   \<and> effects sunkRunner = effects runnerLedger"
  by (simp add: sunkRunner_def runnerLedger_eq fastCheckParallel_def example_ledgers
     fastCheckOne_def fastRefresh_def fastStops_def closePosition_def emit_def updPos_def
     received_def risk_config monitor_config Let_def)

text \<open>A position that is not a runner never reaches the ceiling rule: at or below -20
  percent the hard stop at -12 percent has already closed it, as a stop-loss. A runner
  passes every stop of the fast loop, whatever its P&L, unless its peak reached 15
  percent.\<close>

lemma ceiling_branch_shadowed:
  "\<not> isRunner (heap st r) \<Longrightarrow> pnlPercent (heap st r) \<le> maxTrailingLoss \<Longrightarrow>
     fastStops now sell r st = closePosition sell r Stop_loss st"
  by (simp add: fastStops_def maxTrailingLoss_def Let_def)

lemma fastStops_runner:
  "isRunner (heap st r) \<Longrightarrow>
   ((highestPriceSol (heap st r) - entryPriceSol (heap st r)) / entryPriceSol (heap st r)) * 100 < 15 \<Longrightarrow>
     fastStops now sell r st = st"
  by (simp add: fastStops_def Let_def)

subsection \<open>The take-profit ladder\<close>

lemma heap_emit [simp]: "heap (emit es st) = heap st"
  by (simp add: emit_def)

lemma heap_updPos [simp]: "heap (updPos r f st) = (heap st)(r := f (heap st r))"
  by (simp add: updPos_def)

lemma partialSell_pnlPercent [simp]:
  "pnlPercent (heap (partialSell res r pct why st) r') = pnlPercent (heap st r')"
  by (simp add: partialSell_def updPos_def Let_def)

lemma partialSell_takeProfitStage [simp]:
  "takeProfitStage (heap (partialSell res r pct why st) r') = takeProfitStage (heap st r')"
  by (simp add: partialSell_def updPos_def Let_def)

lemma takeProfitLoop_pnlPercent [simp]:
  "pnlPercent (heap (takeProfitLoop label sell r ls i st) r') = pnlPercent (heap st r')"
  by (induction ls arbitrary: i st) (simp_all add: updPos_def)





text \<open>What one run of the loop asks the executor: one sell for every rung, from the head
  of the list on, whose trigger the P&L has reached, in the order of the table.\<close>

lemma requested_updPos [simp]: "requested r (updPos x f st) = requested r st"
  by (simp add: requested_def updPos_def)









subsection \<open>The segments and the functions they are cut from\<close>

text \<open>Run one after the other, with nothing in between, the segments of \<open>closePosition\<close>
  and of \<open>partialSell\<close> do what the whole function does, and the fast loop's body decides
  as \<open>deadVolumeCheck\<close> and \<open>fastStops\<close> do.\<close>

lemma closePosition_segments:
  "closePosition res r why st = closeSettle res r why (snd (closeAsk r why k st))"
  unfolding closePosition_def closeSettle_def closeAsk_def Let_def snd_conv heap_emit
  by (rule refl)

lemma partialSell_segments:
  "partialSell res r pct why st = partialSettle res r pct why (snd (partialAsk r pct why k st))"
  unfolding partialSell_def partialSettle_def partialAsk_def Let_def snd_conv heap_emit
  by (rule refl)

lemma deadVolumeCheck_segments:
  "deadVolumeCheck tick sell r st =
     (case fst (deadVerdict tick r st) of
        None \<Rightarrow> snd (deadVerdict tick r st)
      | Some why \<Rightarrow> closePosition sell r why (snd (deadVerdict tick r st)))"
proof -
  define st1 where "st1 = (if deadVolumeTimers st (pos_id (heap st r)) = None
                 then st\<lparr>deadVolumeTimers := (deadVolumeTimers st)(pos_id (heap st r) \<mapsto> tick)\<rparr>
                 else st)"
  define deadSince where
    "deadSince = (case deadVolumeTimers st1 (pos_id (heap st r)) of Some t \<Rightarrow> t | None \<Rightarrow> tick)"
  define cleared where
    "cleared = st1\<lparr>deadVolumeTimers := (deadVolumeTimers st1)(pos_id (heap st r) := None)\<rparr>"
  have whole: "deadVolumeCheck tick sell r st =
      (if deadVolumeDue (tick - deadSince) (heap st r) then closePosition sell r Dead_volume cleared
       else st1)"
    unfolding deadVolumeCheck_def Let_def st1_def [symmetric] deadSince_def [symmetric]
      cleared_def [symmetric] deadVolumeDue_def
    by simp
  have verdict: "deadVerdict tick r st =
      (if deadVolumeDue (tick - deadSince) (heap st r) then (Some Dead_volume, cleared)
       else (None, st1))"
    unfolding deadVerdict_def Let_def st1_def [symmetric] deadSince_def [symmetric]
      cleared_def [symmetric]
    by (rule refl)
  show ?thesis unfolding whole verdict by simp
qed

lemma fastStops_segments:
  "fastStops tick sell r st =
     (case fastStopReason tick (heap st r) of
        None \<Rightarrow> st
      | Some why \<Rightarrow> closePosition sell r why st)"
  by (simp add: fastStops_def fastStopReason_def Let_def maxTrailingLoss_def)

lemma fastCheckOne_segments:
  "fastCheckOne tick price sell r st =
     (if status (heap st r) = St_closed then st
      else case fst (fastVerdict tick price r st) of
        None \<Rightarrow> snd (fastVerdict tick price r st)
      | Some why \<Rightarrow> closePosition sell r why (snd (fastVerdict tick price r st)))"
  by (simp add: fastCheckOne_def fastVerdict_def deadVolumeCheck_segments fastStops_segments
      split: option.split)

lemma executeDirectBuy_segments:
  "executeDirectBuy now newId pre result analysis st =
     (case buyStart now analysis st of
        (Some (AwaitPreBuy a order), st1) \<Rightarrow>
          (case buyAfterPrice pre a order st1 of
             (Some t, st2) \<Rightarrow> buyAfterFill now newId result a order st2
           | (None, st2) \<Rightarrow> st2)
      | (_, st1) \<Rightarrow> st1)"
proof (cases "shouldBuy now analysis st")
  case (Pair ord st1)
  then show ?thesis
    by (cases ord; cases pre)
       (simp_all add: executeDirectBuy_def buyStart_def buyAfterPrice_def buyAfterFill_def Let_def)
qed

lemmas loop_defs =
  resume_def spawn_def reschedule_def slowStart_def slowNext_def fastStart_def
  slowAfterPrice_def slowAfterRunner_def enterHandler_def enterScalp_def enterRunner_def
  ladderFrom_def ladderEnd_def rungs_def rungLabel_def partialAsk_def partialSettle_def
  partialNotifies_def proceed_def closeAsk_def closeSettle_def fastVerdict_def deadVerdict_def
  deadVolumeDue_def fastStopReason_def buyStart_def buyAfterPrice_def buyAfterFill_def
  fastRefresh_def slowRefresh_def emit_def updPos_def getScalpTrail_def getRunnerTrail_def
  getTrail_def received_def sellShare_def


lemma closedOutLedger_run: "run quickCutAlone oneLedger = closedOutLedger"
  by (simp add: run_def quickCutAlone_def closedOutLedger_def oneLedger_eq loop_defs
      fastCheckParallel_def fastCheckOne_def fastStops_def closePosition_def
      example_ledgers sellAll_def risk_config monitor_config Let_def)

subsection \<open>The open set in the event loop\<close>

text \<open>Only two segments change the open set or allocate: the settling of a close filters
  the open set, and the settling of a buy appends a new reference. So every ledger that
  the event loop reaches is \<open>allocated\<close>, however the invocations interleave.\<close>

lemma nextRef_emit [simp]: "nextRef (emit es st) = nextRef st"
  by (simp add: emit_def)

lemma nextRef_updPos [simp]: "nextRef (updPos r f st) = nextRef st"
  by (simp add: updPos_def)

lemma openPositions_emit [simp]: "openPositions (emit es st) = openPositions st"
  by (simp add: emit_def)

lemma openPositions_updPos [simp]: "openPositions (updPos r f st) = openPositions st"
  by (simp add: updPos_def)

lemma closeAsk_store [simp]:
  "openPositions (snd (closeAsk r why k st)) = openPositions st"
  "nextRef (snd (closeAsk r why k st)) = nextRef st"
  by (simp_all add: closeAsk_def)

lemma partialAsk_store [simp]:
  "openPositions (snd (partialAsk r pct why k st)) = openPositions st"
  "nextRef (snd (partialAsk r pct why k st)) = nextRef st"
  by (simp_all add: partialAsk_def)

lemma slowNext_store [simp]: "snd (slowNext rest st) = st"
  by (simp add: slowNext_def split: list.split)

lemma deadVerdict_store [simp]:
  "openPositions (snd (deadVerdict tick r st)) = openPositions st"
  "nextRef (snd (deadVerdict tick r st)) = nextRef st"
  by (simp_all add: deadVerdict_def Let_def)

lemma fastRefresh_store [simp]:
  "openPositions (fastRefresh x r st) = openPositions st"
  "nextRef (fastRefresh x r st) = nextRef st"
  by (simp_all add: fastRefresh_def Let_def)

lemma fastVerdict_store [simp]:
  "openPositions (snd (fastVerdict tick price r st)) = openPositions st"
  "nextRef (snd (fastVerdict tick price r st)) = nextRef st"
  by (simp_all add: fastVerdict_def split: option.split)

lemma fastLoop_store [simp]:
  "openPositions (snd (fastLoop tick visits st)) = openPositions st"
  "nextRef (snd (fastLoop tick visits st)) = nextRef st"
  by (induction visits arbitrary: st; simp add: Let_def split: option.split)+

lemma ladderEnd_store [simp]:
  "openPositions (snd (ladderEnd l now r rest st)) = openPositions st"
  "nextRef (snd (ladderEnd l now r rest st)) = nextRef st"
  by (simp_all add: ladderEnd_def Let_def)

lemma ladderScan_store [simp]:
  "openPositions (snd (ladderScan l now r ls i rest st)) = openPositions st"
  "nextRef (snd (ladderScan l now r ls i rest st)) = nextRef st"
  by (induction ls arbitrary: i; simp)+

lemma ladderFrom_store [simp]:
  "openPositions (snd (ladderFrom l now r i rest st)) = openPositions st"
  "nextRef (snd (ladderFrom l now r i rest st)) = nextRef st"
  by (simp_all add: ladderFrom_def)

lemma enterHandler_store [simp]:
  "openPositions (snd (enterHandler now r highestPnl rest st)) = openPositions st"
  "nextRef (snd (enterHandler now r highestPnl rest st)) = nextRef st"
  by (simp_all add: enterHandler_def enterScalp_def enterRunner_def Let_def)

lemma slowRefresh_store [simp]:
  "openPositions (slowRefresh x r st) = openPositions st"
  "nextRef (slowRefresh x r st) = nextRef st"
  by (simp_all add: slowRefresh_def)

lemma slowAfterPrice_store [simp]:
  "openPositions (snd (slowAfterPrice now price r rest st)) = openPositions st"
  "nextRef (snd (slowAfterPrice now price r rest st)) = nextRef st"
  by (simp_all add: slowAfterPrice_def Let_def split: option.split)

lemma slowAfterRunner_store [simp]:
  "openPositions (snd (slowAfterRunner now promoted r highestPnl rest st)) = openPositions st"
  "nextRef (snd (slowAfterRunner now promoted r highestPnl rest st)) = nextRef st"
  by (simp_all add: slowAfterRunner_def)

lemma proceed_store [simp]:
  "openPositions (snd (proceed k now st)) = openPositions st"
  "nextRef (snd (proceed k now st)) = nextRef st"
  by (simp_all add: proceed_def split: kont.split)

lemma partialSettle_store [simp]:
  "openPositions (partialSettle res r pct why st) = openPositions st"
  "nextRef (partialSettle res r pct why st) = nextRef st"
  by (simp_all add: partialSettle_def Let_def)

lemma closeSettle_nextRef [simp]: "nextRef (closeSettle res r why st) = nextRef st"
  by (simp add: closeSettle_def Let_def)


lemma fastStart_store [simp]: "snd (fastStart tick st) = st"
  by (simp add: fastStart_def Let_def)

lemma slowStart_store [simp]: "snd (slowStart st) = st"
  by (simp add: slowStart_def)





lemma buyAfterPrice_store [simp]:
  "openPositions (snd (buyAfterPrice pre analysis order st)) = openPositions st"
  "nextRef (snd (buyAfterPrice pre analysis order st)) = nextRef st"
  by (simp_all add: buyAfterPrice_def split: option.split)








lemma snd_spawn [simp]: "snd (spawn ts out) = snd out"
  by (simp add: spawn_def split: option.split)

lemma snd_reschedule [simp]: "snd (reschedule ts k out) = snd out"
  by (simp add: reschedule_def split: option.split)





subsection \<open>The remaining fraction\<close>

text \<open>C9: \<open>remainingPercent\<close> is to start at 100, to stay between 0 and 100 and to fall
  only when part of the position is sold. A position does start at 100. The code breaks
  the rest in three ways.

  Two ticks of the slow timer overlap on the ledger with one open position, at a price
  of 1.45: the second tick enters the take-profit loop while the first waits for the
  notifier, reads the stage 0 that the first has not yet written, and sells the rung at
  20 percent again; both then sell the rung at 40 percent. Four sells of 30 percent
  leave \<open>remainingPercent\<close> at -20, on a position marked closed that is still in the open
  set.

  A tick of the fast timer closes the position while a tick of the slow timer waits for
  its price. The fast loop re-reads \<open>p.status\<close> after its \<open>await\<close>; \<open>checkPosition\<close> does
  not, and \<open>partialSell\<close> subtracts 30 from the 0 that the close has left:
  \<open>remainingPercent\<close> is -30.

  A close whose sell fails sets \<open>remainingPercent\<close> from 100 to 0 though nothing was sold
  and nothing received.\<close>

theorem remainingPercent_leaves_range:
  "remainingPercent (heap oneLedger 0) = 100
   \<and> remainingPercent (heap oversold 0) = - 20
   \<and> status (heap oversold 0) = St_closed
   \<and> openPositions oversold = [0]
   \<and> requested 0 oversold = [ScalpTP 20, ScalpTP 20, ScalpTP 40, ScalpTP 40]
   \<and> fst (steps overlappingTicks ([], oneLedger)) = []
   \<and> remainingPercent (heap soldAfterClose 0) = - 30
   \<and> requested 0 soldAfterClose = [CloseFor Stop_loss, ScalpTP 20]
   \<and> openPositions soldAfterClose = []
   \<and> fst (steps closeDuringFetch ([], oneLedger)) = []
   \<and> remainingPercent (heap failedClose 0) = 0
   \<and> availableCapitalSol failedClose = availableCapitalSol oneLedger"
proof -
  have a: "remainingPercent (heap oneLedger 0) = 100"
    by (simp add: oneLedger_eq example_ledgers)
  have b: "remainingPercent (heap oversold 0) = - 20" "status (heap oversold 0) = St_closed"
    "openPositions oversold = [0]"
    "requested 0 oversold = [ScalpTP 20, ScalpTP 20, ScalpTP 40, ScalpTP 40]"
    "fst (steps overlappingTicks ([], oneLedger)) = []"
    by (simp_all add: oversold_def run_def overlappingTicks_def oneLedger_eq example_ledgers loop_defs
        requested_def risk_config monitor_config Let_def)
  have c: "remainingPercent (heap soldAfterClose 0) = - 30"
    "requested 0 soldAfterClose = [CloseFor Stop_loss, ScalpTP 20]"
    "openPositions soldAfterClose = []" "fst (steps closeDuringFetch ([], oneLedger)) = []"
    by (simp_all add: soldAfterClose_def run_def closeDuringFetch_def oneLedger_eq example_ledgers
        loop_defs requested_def sellAll_def risk_config monitor_config Let_def)
  have d: "remainingPercent (heap failedClose 0) = 0"
    "availableCapitalSol failedClose = availableCapitalSol oneLedger"
    by (simp_all add: failedClose_def oneLedger_eq fastCheckParallel_def example_ledgers
        fastCheckOne_def fastRefresh_def fastStops_def closePosition_def emit_def updPos_def
        received_def risk_config monitor_config Let_def)
  from a b c d show ?thesis by simp
qed

subsection \<open>An invocation that runs alone\<close>

text \<open>When nothing else runs between its segments, an invocation does what the function
  it is cut from does: a tick of the fast timer what \<open>fastCheckParallel\<close> does, a tick of
  the slow timer what \<open>checkAllPositions\<close> does, a buy what \<open>executeDirectBuy\<close> does. And
  such a run is a run of the event loop.\<close>

lemma resume_simps:
  "resume now (APrices f) (AwaitPrices tick snapshot) st
     = Some (fastLoop tick (map (\<lambda>r. (r, f r)) snapshot) st)"
  "resume now (APrice x) (AwaitSlowPrice r rest) st = Some (slowAfterPrice now x r rest st)"
  "resume now (APromoted b) (AwaitRunner r highestPnl rest) st
     = Some (slowAfterRunner now b r highestPnl rest st)"
  "resume now (ASold res) (AwaitClose r why k) st
     = Some (Some (AwaitSent k), closeSettle res r why st)"
  "resume now (ASold res) (AwaitPartial r pct rung k) st
     = Some (if partialNotifies res r pct st
             then (Some (AwaitSent k), partialSettle res r pct rung st)
             else proceed k now (partialSettle res r pct rung st))"
  "resume now ASent (AwaitSent k) st = Some (proceed k now st)"
  "resume now (APreBuy pre) (AwaitPreBuy analysis order) st
     = Some (buyAfterPrice pre analysis order st)"
  "resume now (ABought result newId) (AwaitBuy analysis order) st
     = Some (None, buyAfterFill now newId result analysis order st)"
  by (simp_all add: resume_def)

lemma closeAsk_alone:
  assumes "ans (AwaitClose r why k) = ASold res" and "ans (AwaitSent k) = ASent"
    and "alone ans now (proceed k now (closePosition res r why st)) fin"
  shows "alone ans now (closeAsk r why k st) fin"
proof -
  let ?st0 = "emit [ExecuteSell r (remainingPercent (heap st r)) (CloseFor why)] st"
  have ask: "closeAsk r why k st = (Some (AwaitClose r why k), ?st0)"
    by (simp add: closeAsk_def)
  have whole: "closeSettle res r why ?st0 = closePosition res r why st"
    using closePosition_segments [of res r why st k] by (simp only: ask snd_conv)
  have "resume now (ans (AwaitSent k)) (AwaitSent k) (closePosition res r why st)
          = Some (proceed k now (closePosition res r why st))"
    by (simp only: assms(2) resume_simps)
  then have sent: "alone ans now (Some (AwaitSent k), closePosition res r why st) fin"
    using assms(3) by (rule alone.settled)
  have "resume now (ans (AwaitClose r why k)) (AwaitClose r why k) ?st0
          = Some (Some (AwaitSent k), closePosition res r why st)"
    by (simp only: assms(1) resume_simps whole)
  then have "alone ans now (Some (AwaitClose r why k), ?st0) fin"
    using sent by (rule alone.settled)
  then show ?thesis by (simp only: ask)
qed

lemma partialAsk_alone:
  assumes "ans (AwaitPartial r pct why k) = ASold res" and "ans (AwaitSent k) = ASent"
    and "alone ans now (proceed k now (partialSell res r pct why st)) fin"
  shows "alone ans now (partialAsk r pct why k st) fin"
proof -
  let ?st0 = "emit [ExecuteSell r (sellShare pct (remainingPercent (heap st r))) why] st"
  have ask: "partialAsk r pct why k st = (Some (AwaitPartial r pct why k), ?st0)"
    by (simp add: partialAsk_def)
  have whole: "partialSettle res r pct why ?st0 = partialSell res r pct why st"
    using partialSell_segments [of res r pct why st k] by (simp only: ask snd_conv)
  have "resume now (ans (AwaitSent k)) (AwaitSent k) (partialSell res r pct why st)
          = Some (proceed k now (partialSell res r pct why st))"
    by (simp only: assms(2) resume_simps)
  then have sent: "alone ans now (Some (AwaitSent k), partialSell res r pct why st) fin"
    using assms(3) by (rule alone.settled)
  have "alone ans now (Some (AwaitPartial r pct why k), ?st0) fin"
  proof (cases "partialNotifies res r pct ?st0")
    case True
    then have "resume now (ans (AwaitPartial r pct why k)) (AwaitPartial r pct why k) ?st0
          = Some (Some (AwaitSent k), partialSell res r pct why st)"
      by (simp only: assms(1) resume_simps whole if_True)
    then show ?thesis using sent by (rule alone.settled)
  next
    case False
    then have "resume now (ans (AwaitPartial r pct why k)) (AwaitPartial r pct why k) ?st0
          = Some (proceed k now (partialSell res r pct why st))"
      by (simp only: assms(1) resume_simps whole if_False)
    then show ?thesis using assms(3) by (rule alone.settled)
  qed
  then show ?thesis by (simp only: ask)
qed

lemma alone_settle:
  "resume now (ans t) t st = Some out \<Longrightarrow> alone ans now out fin \<Longrightarrow>
     alone ans now (Some t, st) fin"
  by (rule alone.settled)

lemma slowAnswers_simps [simp]:
  "slowAnswers env (AwaitSlowPrice r rest) = APrice (se_price env r)"
  "slowAnswers env (AwaitRunner r highestPnl rest) = APromoted (se_promoted env r)"
  "slowAnswers env (AwaitClose r why k) = ASold (se_sellClose env r)"
  "slowAnswers env (AwaitPartial r pct rung (KLadder l x i rest)) = ASold (se_sellTP env r i)"
  "slowAnswers env (AwaitSent k) = ASent"
  by (simp_all add: slowAnswers_def)

lemma ladderScan_alone:
  assumes "ls = drop i (rungs l)"
    and "alone (slowAnswers env) now
           (ladderEnd l now r rest (takeProfitLoop (rungLabel l) (se_sellTP env r) r ls i st)) fin"
  shows "alone (slowAnswers env) now (ladderScan l now r ls i rest st) fin"
  using assms
proof (induction ls arbitrary: i st)
  case Nil
  then show ?case by simp
next
  case (Cons sp later)
  from Cons.prems(1) have i: "i < length (rungs l)"
    by (metis drop_all list.distinct(1) not_le)
  with Cons.prems(1) have later: "later = drop (i + 1) (rungs l)"
    by (simp add: Cons_nth_drop_Suc [symmetric])
  show ?case
  proof (cases "pnlPercent (heap st r) \<ge> triggerPercent sp * 100")
    case True
    let ?sold = "partialSell (se_sellTP env r i) r (sellPercent sp * 100)
                   (rungLabel l (triggerPercent sp * 100)) st"
    let ?st1 = "updPos r (\<lambda>q. q\<lparr>takeProfitStage := i + 1\<rparr>) ?sold"
    from Cons.prems(2) True
    have "alone (slowAnswers env) now
           (ladderEnd l now r rest
              (takeProfitLoop (rungLabel l) (se_sellTP env r) r later (i + 1) ?st1)) fin"
      by simp
    with later have "alone (slowAnswers env) now (ladderScan l now r later (i + 1) rest ?st1) fin"
      by (rule Cons.IH)
    then have "alone (slowAnswers env) now (proceed (KLadder l r i rest) now ?sold) fin"
      by (simp add: proceed_def ladderFrom_def later)
    then have "alone (slowAnswers env) now
        (partialAsk r (sellPercent sp * 100) (rungLabel l (triggerPercent sp * 100))
           (KLadder l r i rest) st) fin"
      by (rule partialAsk_alone [where res = "se_sellTP env r i", rotated 2]) simp_all
    with True show ?thesis by simp
  next
    case False
    with Cons.prems(2)
    have "alone (slowAnswers env) now
           (ladderEnd l now r rest
              (takeProfitLoop (rungLabel l) (se_sellTP env r) r later (i + 1) st)) fin"
      by simp
    with later have "alone (slowAnswers env) now (ladderScan l now r later (i + 1) rest st) fin"
      by (rule Cons.IH)
    with False show ?thesis by simp
  qed
qed

lemma closeThenNext_alone:
  assumes "alone (slowAnswers env) now (slowNext rest (closePosition (se_sellClose env r) r why st)) fin"
  shows "alone (slowAnswers env) now (closeAsk r why (KSlow rest) st) fin"
proof (rule closeAsk_alone [where res = "se_sellClose env r"])
  show "alone (slowAnswers env) now
      (proceed (KSlow rest) now (closePosition (se_sellClose env r) r why st)) fin"
    using assms by (simp add: proceed_def)
qed simp_all

lemma trailThenNext_alone:
  assumes "alone (slowAnswers env) now
      (slowNext rest (closePosition (se_sellClose env r) r Trailing_stop (emit es st))) fin"
  shows "alone (slowAnswers env) now (Some (AwaitSent (KTrail r rest)), emit es st) fin"
proof -
  from assms have "alone (slowAnswers env) now (closeAsk r Trailing_stop (KSlow rest) (emit es st)) fin"
    by (rule closeThenNext_alone)
  then show ?thesis
    by (rule alone_settle [rotated]) (simp add: resume_simps proceed_def)
qed

lemma enterScalp_alone:
  assumes "alone (slowAnswers env) now
      (slowNext rest (handleScalp now (se_sellTP env r) (se_sellClose env r) r highestPnl st)) fin"
  shows "alone (slowAnswers env) now (enterScalp now r highestPnl rest st) fin"
proof -
  let ?p = "heap st r"
  consider (breakeven) "highestPnl \<ge> 12 \<and> pnlPercent ?p \<le> 1"
    | (trail) "\<not> (highestPnl \<ge> 12 \<and> pnlPercent ?p \<le> 1)"
        "highestPnl > 8 \<and> currentPriceSol ?p \<le> highestPriceSol ?p * (1 - getScalpTrail highestPnl)"
    | (ladder) "\<not> (highestPnl \<ge> 12 \<and> pnlPercent ?p \<le> 1)"
        "\<not> (highestPnl > 8 \<and> currentPriceSol ?p \<le> highestPriceSol ?p * (1 - getScalpTrail highestPnl))"
    by blast
  then show ?thesis
  proof cases
    case breakeven
    with assms have "alone (slowAnswers env) now
        (slowNext rest (closePosition (se_sellClose env r) r Trailing_stop st)) fin"
      by (auto simp: handleScalp_def)
    then have "alone (slowAnswers env) now (closeAsk r Trailing_stop (KSlow rest) st) fin"
      by (rule closeThenNext_alone)
    with breakeven show ?thesis by (auto simp: enterScalp_def)
  next
    case trail
    show ?thesis
    proof (cases "pnlPercent ?p > 0")
      case True
      let ?es = "[NotifyTrailingStop (symbol ?p) (pnlPercent ?p) (pnlSol ?p) highestPnl]"
      from assms trail True have "alone (slowAnswers env) now
          (slowNext rest (closePosition (se_sellClose env r) r Trailing_stop (emit ?es st))) fin"
        by (auto simp: handleScalp_def Let_def)
      then have "alone (slowAnswers env) now (Some (AwaitSent (KTrail r rest)), emit ?es st) fin"
        by (rule trailThenNext_alone)
      with trail True show ?thesis by (auto simp: enterScalp_def Let_def)
    next
      case False
      with assms trail have "alone (slowAnswers env) now
          (slowNext rest (closePosition (se_sellClose env r) r Trailing_stop st)) fin"
        by (auto simp: handleScalp_def Let_def)
      then have "alone (slowAnswers env) now (closeAsk r Trailing_stop (KSlow rest) st) fin"
        by (rule closeThenNext_alone)
      with trail False show ?thesis by (auto simp: enterScalp_def Let_def)
    qed
  next
    case ladder
    let ?st1 = "scalpTakeProfit (se_sellTP env r) r st"
    have "alone (slowAnswers env) now (ladderEnd ScalpLadder now r rest ?st1) fin"
    proof (cases "now - entryTime (heap ?st1 r) > maxPositionAge \<and> pnlPercent (heap ?st1 r) \<le> 3")
      case True
      with assms ladder have "alone (slowAnswers env) now
          (slowNext rest (closePosition (se_sellClose env r) r Timeout ?st1)) fin"
        by (auto simp: handleScalp_def Let_def)
      then have "alone (slowAnswers env) now (closeAsk r Timeout (KSlow rest) ?st1) fin"
        by (rule closeThenNext_alone)
      with True show ?thesis by (auto simp: ladderEnd_def Let_def)
    next
      case False
      with assms ladder have "alone (slowAnswers env) now (slowNext rest ?st1) fin"
        by (auto simp: handleScalp_def Let_def)
      with False show ?thesis by (auto simp: ladderEnd_def Let_def)
    qed
    then have "alone (slowAnswers env) now
        (ladderEnd ScalpLadder now r rest
           (takeProfitLoop (rungLabel ScalpLadder) (se_sellTP env r) r
              (drop (takeProfitStage ?p) (rungs ScalpLadder)) (takeProfitStage ?p) st)) fin"
      by (simp add: scalpTakeProfit_def rungs_def rungLabel_def)
    then have "alone (slowAnswers env) now
        (ladderScan ScalpLadder now r (drop (takeProfitStage ?p) (rungs ScalpLadder))
           (takeProfitStage ?p) rest st) fin"
      by (rule ladderScan_alone [OF refl])
    with ladder show ?thesis by (auto simp: enterScalp_def ladderFrom_def Let_def)
  qed
qed

lemma enterRunner_alone:
  assumes "alone (slowAnswers env) now
      (slowNext rest (handleRunner now (se_sellTP env r) (se_sellClose env r) r highestPnl st)) fin"
  shows "alone (slowAnswers env) now (enterRunner now r highestPnl rest st) fin"
proof -
  let ?p = "heap st r"
  show ?thesis
  proof (cases "highestPnl > 10
      \<and> currentPriceSol ?p \<le> highestPriceSol ?p * (1 - getRunnerTrail highestPnl)")
    case trail: True
    show ?thesis
    proof (cases "pnlPercent ?p > 0")
      case True
      let ?es = "[NotifyTrailingStop (symbol ?p) (pnlPercent ?p) (pnlSol ?p) highestPnl]"
      from assms trail True have "alone (slowAnswers env) now
          (slowNext rest (closePosition (se_sellClose env r) r Trailing_stop (emit ?es st))) fin"
        by (auto simp: handleRunner_def Let_def)
      then have "alone (slowAnswers env) now (Some (AwaitSent (KTrail r rest)), emit ?es st) fin"
        by (rule trailThenNext_alone)
      with trail True show ?thesis by (auto simp: enterRunner_def Let_def)
    next
      case False
      with assms trail have "alone (slowAnswers env) now
          (slowNext rest (closePosition (se_sellClose env r) r Trailing_stop st)) fin"
        by (auto simp: handleRunner_def Let_def)
      then have "alone (slowAnswers env) now (closeAsk r Trailing_stop (KSlow rest) st) fin"
        by (rule closeThenNext_alone)
      with trail False show ?thesis by (auto simp: enterRunner_def Let_def)
    qed
  next
    case ladder: False
    let ?st1 = "runnerTakeProfit (se_sellTP env r) r st"
    have "alone (slowAnswers env) now (ladderEnd RunnerLadder now r rest ?st1) fin"
    proof (cases "now - entryTime (heap ?st1 r) > runner_maxDuration \<and> pnlPercent (heap ?st1 r) \<le> 5")
      case True
      with assms ladder have "alone (slowAnswers env) now
          (slowNext rest (closePosition (se_sellClose env r) r Timeout ?st1)) fin"
        by (auto simp: handleRunner_def Let_def)
      then have "alone (slowAnswers env) now (closeAsk r Timeout (KSlow rest) ?st1) fin"
        by (rule closeThenNext_alone)
      with True show ?thesis by (auto simp: ladderEnd_def Let_def)
    next
      case False
      with assms ladder have "alone (slowAnswers env) now (slowNext rest ?st1) fin"
        by (auto simp: handleRunner_def Let_def)
      with False show ?thesis by (auto simp: ladderEnd_def Let_def)
    qed
    then have "alone (slowAnswers env) now
        (ladderEnd RunnerLadder now r rest
           (takeProfitLoop (rungLabel RunnerLadder) (se_sellTP env r) r
              (drop (takeProfitStage ?p) (rungs RunnerLadder)) (takeProfitStage ?p) st)) fin"
      by (simp add: runnerTakeProfit_def rungs_def rungLabel_def)
    then have "alone (slowAnswers env) now
        (ladderScan RunnerLadder now r (drop (takeProfitStage ?p) (rungs RunnerLadder))
           (takeProfitStage ?p) rest st) fin"
      by (rule ladderScan_alone [OF refl])
    with ladder show ?thesis by (auto simp: enterRunner_def ladderFrom_def Let_def)
  qed
qed

lemma slowAfterPrice_alone:
  assumes "alone (slowAnswers env) now
      (slowNext rest (checkPosition now (se_price env r) (se_promoted env r) (se_sellTP env r)
         (se_sellClose env r) r st)) fin"
  shows "alone (slowAnswers env) now (slowAfterPrice now (se_price env r) r rest st) fin"
proof (cases "se_price env r = None \<or> se_price env r = Some 0")
  case True
  with assms show ?thesis
    by (auto simp: checkPosition_def slowAfterPrice_def)
next
  case False
  then obtain x where x: "se_price env r = Some x" "x \<noteq> 0" by auto
  let ?st1 = "slowRefresh x r st"
  let ?p = "heap ?st1 r"
  let ?hp = "((highestPriceSol ?p - entryPriceSol ?p) / entryPriceSol ?p) * 100"
  let ?ask = "\<not> isRunner ?p \<and> pnlPercent ?p \<ge> 15"
  let ?st2 = "if ?ask \<and> se_promoted env r
              then updPos r (\<lambda>q. q\<lparr>isRunner := True, runnerPromotedAt := Some now\<rparr>) ?st1
              else ?st1"
  have whole: "checkPosition now (se_price env r) (se_promoted env r) (se_sellTP env r)
         (se_sellClose env r) r st
      = (if isRunner (heap ?st2 r)
         then handleRunner now (se_sellTP env r) (se_sellClose env r) r ?hp ?st2
         else handleScalp now (se_sellTP env r) (se_sellClose env r) r ?hp ?st2)"
    using x by (simp add: checkPosition_def Let_def)
  have handler: "alone (slowAnswers env) now (enterHandler now r ?hp rest ?st2) fin"
  proof (cases "isRunner (heap ?st2 r)")
    case True
    with assms whole have "alone (slowAnswers env) now
        (slowNext rest (handleRunner now (se_sellTP env r) (se_sellClose env r) r ?hp ?st2)) fin"
      by (simp only: if_True)
    then have "alone (slowAnswers env) now (enterRunner now r ?hp rest ?st2) fin"
      by (rule enterRunner_alone)
    with True show ?thesis by (simp only: enterHandler_def if_True)
  next
    case False
    with assms whole have "alone (slowAnswers env) now
        (slowNext rest (handleScalp now (se_sellTP env r) (se_sellClose env r) r ?hp ?st2)) fin"
      by (simp only: if_False)
    then have "alone (slowAnswers env) now (enterScalp now r ?hp rest ?st2) fin"
      by (rule enterScalp_alone)
    with False show ?thesis by (simp only: enterHandler_def if_False)
  qed
  show ?thesis
  proof (cases ?ask)
    case True
    then have st2: "?st2 = (if se_promoted env r
              then updPos r (\<lambda>q. q\<lparr>isRunner := True, runnerPromotedAt := Some now\<rparr>) ?st1
              else ?st1)"
      by simp
    from handler have "alone (slowAnswers env) now
        (slowAfterRunner now (se_promoted env r) r ?hp rest ?st1) fin"
      unfolding st2 slowAfterRunner_def .
    then have "alone (slowAnswers env) now (Some (AwaitRunner r ?hp rest), ?st1) fin"
      by (rule alone_settle [rotated]) (simp add: resume_simps)
    with x True show ?thesis by (simp add: slowAfterPrice_def Let_def)
  next
    case False
    then have "?st2 = ?st1" by auto
    with handler have "alone (slowAnswers env) now (enterHandler now r ?hp rest ?st1) fin"
      by (simp only:)
    with x False show ?thesis by (auto simp: slowAfterPrice_def Let_def)
  qed
qed

lemma slowNext_alone:
  "alone (slowAnswers env) now (slowNext rs st)
     (fold (\<lambda>r. checkPosition now (se_price env r) (se_promoted env r) (se_sellTP env r)
                  (se_sellClose env r) r) rs st)"
proof (induction rs arbitrary: st)
  case Nil
  show ?case by (simp add: slowNext_def alone.finished)
next
  case (Cons r rest)
  let ?st1 = "checkPosition now (se_price env r) (se_promoted env r) (se_sellTP env r)
                (se_sellClose env r) r st"
  let ?fin = "fold (\<lambda>r. checkPosition now (se_price env r) (se_promoted env r) (se_sellTP env r)
                  (se_sellClose env r) r) rest ?st1"
  have "alone (slowAnswers env) now (slowNext rest ?st1) ?fin"
    by (rule Cons.IH)
  then have "alone (slowAnswers env) now (slowAfterPrice now (se_price env r) r rest st) ?fin"
    by (rule slowAfterPrice_alone)
  then have "alone (slowAnswers env) now (Some (AwaitSlowPrice r rest), st) ?fin"
    by (rule alone_settle [rotated]) (simp add: resume_simps)
  then show ?case by (simp add: slowNext_def)
qed

lemma checkAllPositions_alone:
  "alone (slowAnswers env) now (slowStart st) (checkAllPositions now env st)"
  unfolding slowStart_def checkAllPositions_def by (rule slowNext_alone)

lemma fastAnswers_simps [simp]:
  "fastAnswers price sell (AwaitPrices tick snapshot) = APrices price"
  "fastAnswers price sell (AwaitClose r why k) = ASold (sell r)"
  "fastAnswers price sell (AwaitSent k) = ASent"
  by (simp_all add: fastAnswers_def)

lemma fastLoop_alone:
  "alone (fastAnswers price sell) now (fastLoop tick (map (\<lambda>r. (r, price r)) rs) st)
     (fold (\<lambda>r. fastCheckOne tick (price r) (sell r) r) rs st)"
proof (induction rs arbitrary: st)
  case Nil
  show ?case by (simp add: alone.finished)
next
  case (Cons r rest)
  let ?fin = "fold (\<lambda>r. fastCheckOne tick (price r) (sell r) r) rest
                (fastCheckOne tick (price r) (sell r) r st)"
  let ?v = "fastVerdict tick (price r) r st"
  show ?case
  proof (cases "status (heap st r) = St_closed")
    case True
    with Cons.IH [of st] show ?thesis by (simp add: fastCheckOne_segments)
  next
    case False
    show ?thesis
    proof (cases "fst ?v")
      case None
      with False Cons.IH [of "snd ?v"] show ?thesis
        by (simp add: fastCheckOne_segments Let_def)
    next
      case (Some why)
      with False have one: "fastCheckOne tick (price r) (sell r) r st
          = closePosition (sell r) r why (snd ?v)"
        by (simp add: fastCheckOne_segments)
      have "alone (fastAnswers price sell) now
          (fastLoop tick (map (\<lambda>r. (r, price r)) rest) (closePosition (sell r) r why (snd ?v)))
          ?fin"
        unfolding one by (rule Cons.IH)
      then have "alone (fastAnswers price sell) now
          (proceed (KFast tick (map (\<lambda>r. (r, price r)) rest)) now
             (closePosition (sell r) r why (snd ?v))) ?fin"
        by (simp add: proceed_def)
      then have "alone (fastAnswers price sell) now
          (closeAsk r why (KFast tick (map (\<lambda>r. (r, price r)) rest)) (snd ?v)) ?fin"
        by (rule closeAsk_alone [where res = "sell r", rotated 2]) simp_all
      with False Some show ?thesis by (simp add: Let_def)
    qed
  qed
qed

lemma fastCheckParallel_alone:
  "alone (fastAnswers price sell) now (fastStart tick st) (fastCheckParallel tick price sell st)"
proof -
  let ?rs = "filter (\<lambda>r. status (heap st r) \<noteq> St_closed) (openPositions st)"
  show ?thesis
  proof (cases "?rs = []")
    case True
    then show ?thesis
      by (simp add: fastStart_def fastCheckParallel_def alone.finished)
  next
    case False
    have "alone (fastAnswers price sell) now (Some (AwaitPrices tick ?rs), st)
        (fold (\<lambda>r. fastCheckOne tick (price r) (sell r) r) ?rs st)"
      by (rule alone_settle [OF _ fastLoop_alone]) (simp add: resume_simps)
    with False show ?thesis
      by (simp add: fastStart_def fastCheckParallel_def Let_def)
  qed
qed

lemma executeDirectBuy_alone:
  "alone (buyAnswers pre result newId) now (buyStart now analysis st)
     (executeDirectBuy now newId pre result analysis st)"
proof (cases "buyStart now analysis st")
  case (Pair t st1)
  show ?thesis
  proof (cases "\<exists>a order. t = Some (AwaitPreBuy a order)")
    case False
    from Pair have "t = None \<or> (\<exists>a order. t = Some (AwaitPreBuy a order))"
      by (cases "shouldBuy now analysis st") (auto simp: buyStart_def split: option.splits)
    with False have none: "t = None" by simp
    with Pair have "executeDirectBuy now newId pre result analysis st = st1"
      by (simp add: executeDirectBuy_segments)
    with Pair none show ?thesis by (simp add: alone.finished)
  next
    case True
    then obtain a order where t: "t = Some (AwaitPreBuy a order)" by blast
    show ?thesis
    proof (cases "buyAfterPrice pre a order st1")
      case second: (Pair t2 st2)
      have "t2 = None \<or> t2 = Some (AwaitBuy a order)"
        using second by (auto simp: buyAfterPrice_def split: option.splits if_splits)
      then have "alone (buyAnswers pre result newId) now (t2, st2)
          (executeDirectBuy now newId pre result analysis st)"
      proof
        assume none: "t2 = None"
        with Pair t second have "executeDirectBuy now newId pre result analysis st = st2"
          by (simp add: executeDirectBuy_segments)
        with none show ?thesis by (simp add: alone.finished)
      next
        assume buy: "t2 = Some (AwaitBuy a order)"
        with Pair t second have whole: "executeDirectBuy now newId pre result analysis st
            = buyAfterFill now newId result a order st2"
          by (simp add: executeDirectBuy_segments)
        have "alone (buyAnswers pre result newId) now (Some (AwaitBuy a order), st2)
            (buyAfterFill now newId result a order st2)"
          by (rule alone_settle [OF _ alone.finished]) (simp add: resume_simps buyAnswers_def)
        with buy whole show ?thesis by simp
      qed
      then have "alone (buyAnswers pre result newId) now (Some (AwaitPreBuy a order), st1)
          (executeDirectBuy now newId pre result analysis st)"
        by (rule alone_settle [rotated]) (simp add: resume_simps buyAnswers_def second)
      with Pair t show ?thesis by simp
    qed
  qed
qed

text \<open>An invocation that runs alone is a run of the event loop: the events that settle
  its promises, one after the other.\<close>

lemma alone_steps:
  "alone ans now out fin \<Longrightarrow> \<exists>es. steps es (spawn [] out) = ([], fin)"
proof (induction rule: alone.induct)
  case (finished st)
  have "steps [] (spawn [] (None, st)) = ([], st)" by (simp add: spawn_def)
  then show ?case by blast
next
  case (settled t st out st')
  then obtain es where es: "steps es (spawn [] out) = ([], st')" by blast
  from settled.hyps(1) have "step (Resume 0 (ans t) now) ([t], st) = spawn [] out"
    by (simp add: reschedule_def spawn_def split: option.split)
  with es have "steps (Resume 0 (ans t) now # es) (spawn [] (Some t, st)) = ([], st')"
    by (simp add: spawn_def)
  then show ?case by blast
qed

lemma fastCheckParallel_run:
  "\<exists>es. run (StartFast tick # es) st = fastCheckParallel tick price sell st"
proof -
  from alone_steps [OF fastCheckParallel_alone [of price sell 0 tick st]]
  obtain es where "steps es (spawn [] (fastStart tick st))
      = ([], fastCheckParallel tick price sell st)"
    by blast
  then have "run (StartFast tick # es) st = fastCheckParallel tick price sell st"
    by (simp add: run_def)
  then show ?thesis by blast
qed

lemma checkAllPositions_run:
  "\<exists>es. run (StartSlow # es) st = checkAllPositions now env st"
proof -
  from alone_steps [OF checkAllPositions_alone [of env now st]]
  obtain es where "steps es (spawn [] (slowStart st)) = ([], checkAllPositions now env st)"
    by blast
  then have "run (StartSlow # es) st = checkAllPositions now env st"
    by (simp add: run_def)
  then show ?thesis by blast
qed

lemma executeDirectBuy_run:
  "\<exists>es. run (StartBuy now analysis # es) st
          = executeDirectBuy now newId pre result analysis st"
proof -
  from alone_steps [OF executeDirectBuy_alone [of pre result newId now analysis st]]
  obtain es where "steps es (spawn [] (buyStart now analysis st))
      = ([], executeDirectBuy now newId pre result analysis st)"
    by blast
  then have "run (StartBuy now analysis # es) st
      = executeDirectBuy now newId pre result analysis st"
    by (simp add: run_def)
  then show ?thesis by blast
qed

subsection \<open>The capital equation\<close>




lemma partialSell_openPositions [simp]:
  "openPositions (partialSell res r pct why st) = openPositions st"
  by (simp add: partialSell_def Let_def)













lemma emit_capital [simp]:
  "availableCapitalSol (emit es st) = availableCapitalSol st"
  "totalCapitalSol (emit es st) = totalCapitalSol st"
  "committed (emit es st) = committed st"
  by (simp_all add: emit_def committed_def)












subsection \<open>The dip buyer\<close>





text \<open>No check ever puts an entry in the state \<open>dip_detected\<close>: the type lists it, the
  code never assigns it.\<close>

lemma checkEntry_never_dip_detected:
  "wstate w \<noteq> Dip_detected \<Longrightarrow> wstate (entry (checkEntry now env w)) \<noteq> Dip_detected"
proof -
  assume w: "wstate w \<noteq> Dip_detected"
  have t: "wstate (trackPrice now price w) = wstate w" for price
    by (simp add: trackPrice_def Let_def)
  have c: "wstate (entry (confirmRebound env price w')) \<noteq> Dip_detected"
    if "wstate w' \<noteq> Dip_detected" for price w'
    using that by (simp add: confirmRebound_def keep_def Let_def split: option.split)
  show ?thesis
  proof (cases "now - addedAt w > maxWatchDuration")
    case True
    then show ?thesis by (simp add: checkEntry_def discard_def)
  next
    case False
    show ?thesis
    proof (cases "we_price env")
      case None
      with False w show ?thesis by (simp add: checkEntry_def keep_def)
    next
      case (Some price)
      with False w t [of price] c [of "trackPrice now price w" price] show ?thesis
        by (cases "wstate w") (simp_all add: checkEntry_def keep_def discard_def Let_def)
    qed
  qed
qed





end
